theory Spec2Isabelle
  imports Main
begin

section \<open>The diagnostic reporter of \<open>debug.c\<close>\<close>

text \<open>
  \<open>debug.c\<close> writes debug messages, warnings and fatal errors to \<open>stderr\<close>.  Its
  functions are straight-line C: a firewall of \<open>if\<close> statements that repair the
  arguments, a handful of \<open>fprintf\<close>/\<open>vfprintf\<close>/\<open>fputc\<close> calls, and, for the fatal
  ones, a final \<open>exit\<close>.  The embedding below keeps that shape.  The C library and the
  process around the functions are modelled as far as the functions can observe them.
\<close>

subsection \<open>Process state\<close>

text \<open>
  The globals \<open>debuglevel\<close>, \<open>program\<close> and \<open>version_string\<close> are declared in
  \<open>debug.h\<close> and set elsewhere; \<open>program\<close> may be \<open>NULL\<close> (the code tests it).
  \<open>stderr\<close> is the text written to the stream so far, oldest first.  \<open>errno\<close> is the
  C library's error indicator.  C allows every library call to store a nonzero value
  in \<open>errno\<close>, also when it succeeds, and never to store zero: \<open>libc_errno\<close> is the
  list of what the coming library calls will do to it, one entry per call, \<open>0\<close>
  standing for a call that leaves \<open>errno\<close> alone (as do all calls once the list is
  used up).

  C's \<open>int\<close> is modelled by \<open>int\<close>: the code only compares and prints its integers,
  it computes nothing with them, so no operation can overflow.
\<close>

record state =
  stderr :: string
  errno :: int
  debuglevel :: int
  program :: "string option"
  version_string :: string
  libc_errno :: "int list"

text \<open>
  A C function either returns a value to its caller or ends the process through
  \<open>exit\<close>; in the second case the rest of the caller is not run.
\<close>

datatype 'a result = Ret 'a | Exit int

type_synonym 'a prog = "state \<Rightarrow> 'a result \<times> state"

definition returnP :: "'a \<Rightarrow> 'a prog" where
  "returnP x s = (Ret x, s)"

definition bindP :: "'a prog \<Rightarrow> ('a \<Rightarrow> 'b prog) \<Rightarrow> 'b prog" where
  "bindP m k s = (case m s of (Ret x, s') \<Rightarrow> k x s' | (Exit c, s') \<Rightarrow> (Exit c, s'))"

text \<open>Reading a global variable, or \<open>errno\<close>.\<close>

definition getP :: "(state \<Rightarrow> 'a) \<Rightarrow> 'a prog" where
  "getP f s = (Ret (f s), s)"

subsection \<open>The C library, as far as \<open>debug.c\<close> uses it\<close>

text \<open>
  \<open>va_list\<close>: the variable arguments of a call, in order.  The calls of this
  repository pass C strings and \<open>int\<close>s.
\<close>

datatype arg = ArgInt int | ArgStr string

text \<open>\<open>%d\<close>: a decimal numeral, with a minus sign for negative numbers.\<close>

definition digit :: "nat \<Rightarrow> char" where
  "digit n = ''0123456789'' ! n"

fun dec_nat :: "nat \<Rightarrow> string" where
  "dec_nat n = (if n < 10 then [digit n] else dec_nat (n div 10) @ [digit (n mod 10)])"

declare dec_nat.simps [simp del]

definition decimal :: "int \<Rightarrow> string" where
  "decimal i = (if i < 0 then CHR ''-'' # dec_nat (nat (- i)) else dec_nat (nat i))"

text \<open>
  The formatter behind \<open>fprintf\<close> and \<open>vfprintf\<close>, for the conversions that occur in
  this repository (\<open>%s\<close>, \<open>%d\<close>) and \<open>%%\<close>.  It yields the text produced and whether
  the whole format was converted.  Any other conversion, and a conversion whose next
  argument is missing or of the other kind, stops the output there and counts as a
  failure (in C the latter is undefined behaviour).
\<close>

fun format_out :: "string \<Rightarrow> arg list \<Rightarrow> string \<times> bool" where
  "format_out [] ap = ([], True)"
| "format_out [c] ap = (if c = CHR ''%'' then ([], False) else ([c], True))"
| "format_out (c # d # ds) ap =
     (if c = CHR ''%'' then
        (if d = CHR ''%'' then apfst (Cons d) (format_out ds ap)
         else if d = CHR ''s'' then
           (case ap of
              ArgStr x # ap' \<Rightarrow> apfst (append x) (format_out ds ap')
            | _ \<Rightarrow> ([], False))
         else if d = CHR ''d'' then
           (case ap of
              ArgInt i # ap' \<Rightarrow> apfst (append (decimal i)) (format_out ds ap')
            | _ \<Rightarrow> ([], False))
         else ([], False))
      else apfst (Cons c) (format_out (d # ds) ap))"

text \<open>
  The return value of the \<open>printf\<close> family: the number of characters written, or a
  negative number when the conversion failed.
\<close>

definition vformat :: "string \<Rightarrow> arg list \<Rightarrow> string \<times> int" where
  "vformat fmt ap =
     (case format_out fmt ap of (txt, ok) \<Rightarrow> (txt, if ok then int (length txt) else - 1))"

text \<open>One library call's effect on \<open>errno\<close>.\<close>

definition libc_call :: "state \<Rightarrow> state" where
  "libc_call s =
     (case libc_errno s of
        [] \<Rightarrow> s
      | e # es \<Rightarrow> s\<lparr>errno := (if e = 0 then errno s else e), libc_errno := es\<rparr>)"

text \<open>
  \<open>vfprintf(stderr, fmt, ap)\<close>, \<open>fprintf(stderr, fmt, ...)\<close> and \<open>fputc(c, stderr)\<close>.
  The stream is the process's standard error channel, which the specification assumes
  to be always available: what is written is appended.
\<close>

definition vfprintf_stderr :: "string \<Rightarrow> arg list \<Rightarrow> int prog" where
  "vfprintf_stderr fmt ap s =
     (case vformat fmt ap of
        (txt, ret) \<Rightarrow> (Ret ret, libc_call (s\<lparr>stderr := stderr s @ txt\<rparr>)))"

definition fprintf_stderr :: "string \<Rightarrow> arg list \<Rightarrow> int prog" where
  "fprintf_stderr fmt args = vfprintf_stderr fmt args"

definition fputc_stderr :: "char \<Rightarrow> unit prog" where
  "fputc_stderr c s = (Ret (), libc_call (s\<lparr>stderr := stderr s @ [c]\<rparr>))"

text \<open>
  \<open>strerror\<close>: the C library's description of an error number (glibc's wording for a
  few numbers; the claims only depend on which number is described).
\<close>

definition strerror :: "int \<Rightarrow> string" where
  "strerror e =
     (if e = 0 then ''Success''
      else if e = 1 then ''Operation not permitted''
      else if e = 2 then ''No such file or directory''
      else if e = 5 then ''Input/output error''
      else if e = 9 then ''Bad file descriptor''
      else if e = 11 then ''Resource temporarily unavailable''
      else if e = 12 then ''Cannot allocate memory''
      else if e = 13 then ''Permission denied''
      else if e = 22 then ''Invalid argument''
      else if e = 28 then ''No space left on device''
      else ''Unknown error '' @ decimal e)"

text \<open>
  \<open>exit(status)\<close>: the process ends; its parent sees the low eight bits of \<open>status\<close>.
\<close>

definition exit_proc :: "int \<Rightarrow> 'a prog" where
  "exit_proc status s = (Exit (status mod 256), s)"

text \<open>
  Modelled from the spec: the macro \<open>FORCED_EXIT\<close> is defined in \<open>debug.h\<close>, which is
  not among the sources.  The specification gives the reserved fallback exit code as
  255, and so do the comments of \<open>debug.c\<close> beside every use (\<open>// exit(255);\<close>).
\<close>

definition FORCED_EXIT :: int where
  "FORCED_EXIT = 255"

subsection \<open>The functions of \<open>debug.c\<close>\<close>

text \<open>
  A \<open>NULL\<close> pointer argument is \<open>None\<close>.  \<open>__func__\<close> is the name of the enclosing
  function.
\<close>

definition warn :: "string option \<Rightarrow> string option \<Rightarrow> arg list \<Rightarrow> unit prog" where
  "warn name fmt ap =
     bindP (case name of
              None \<Rightarrow>
                bindP (fprintf_stderr ''Warning: %s called with NULL name\<newline>'' [ArgStr ''warn''])
                  (\<lambda>_. returnP ''((NULL name))'')
            | Some n \<Rightarrow> returnP n) (\<lambda>name.
     bindP (case fmt of
              None \<Rightarrow>
                bindP (fprintf_stderr ''Warning: %s called with NULL fmt\<newline>'' [ArgStr ''warn''])
                  (\<lambda>_. returnP ''((NULL fmt))'')
            | Some f \<Rightarrow> returnP f) (\<lambda>fmt.
     bindP (fprintf_stderr ''Warning: %s: '' [ArgStr name]) (\<lambda>_.
     bindP (vfprintf_stderr fmt ap) (\<lambda>ret.
     bindP (if ret \<le> 0
            then bindP (fprintf_stderr ''[%s vfprintf returned error: %d]'' [ArgStr ''warn'', ArgInt ret])
                   (\<lambda>_. returnP ())
            else returnP ()) (\<lambda>_.
     fputc_stderr CHR ''\<newline>'')))))"

definition msg :: "string option \<Rightarrow> arg list \<Rightarrow> unit prog" where
  "msg fmt ap =
     bindP (case fmt of
              None \<Rightarrow>
                bindP (warn (Some ''msg'') (Some ''NULL fmt given to debug'') [])
                  (\<lambda>_. returnP ''((NULL fmt))'')
            | Some f \<Rightarrow> returnP f) (\<lambda>fmt.
     bindP (vfprintf_stderr fmt ap) (\<lambda>ret.
     bindP (if ret \<le> 0
            then bindP (fprintf_stderr ''[%s vfprintf returned error: %d]'' [ArgStr ''msg'', ArgInt ret])
                   (\<lambda>_. returnP ())
            else returnP ()) (\<lambda>_.
     fputc_stderr CHR ''\<newline>'')))"

definition dbg :: "int \<Rightarrow> string option \<Rightarrow> arg list \<Rightarrow> unit prog" where
  "dbg level fmt ap =
     bindP (case fmt of
              None \<Rightarrow>
                bindP (warn (Some ''dbg'') (Some ''NULL fmt given to debug'') [])
                  (\<lambda>_. returnP ''((NULL fmt))'')
            | Some f \<Rightarrow> returnP f) (\<lambda>fmt.
     bindP (getP debuglevel) (\<lambda>dl.
     if level \<le> dl then
       bindP (vfprintf_stderr fmt ap) (\<lambda>ret.
       bindP (if ret \<le> 0
              then bindP (fprintf_stderr ''[%s vfprintf returned error: %d]'' [ArgStr ''dbg'', ArgInt ret])
                     (\<lambda>_. returnP ())
              else returnP ()) (\<lambda>_.
       fputc_stderr CHR ''\<newline>''))
     else returnP ()))"

definition warnp :: "string option \<Rightarrow> string option \<Rightarrow> arg list \<Rightarrow> unit prog" where
  "warnp name fmt ap =
     bindP (getP errno) (\<lambda>saved_errno.
     bindP (case name of
              None \<Rightarrow>
                bindP (fprintf_stderr ''Warning: %s called with NULL name\<newline>'' [ArgStr ''warnp''])
                  (\<lambda>_. returnP ''((NULL name))'')
            | Some n \<Rightarrow> returnP n) (\<lambda>name.
     bindP (case fmt of
              None \<Rightarrow>
                bindP (fprintf_stderr ''Warning: %s called with NULL fmt\<newline>'' [ArgStr ''warnp''])
                  (\<lambda>_. returnP ''((NULL fmt))'')
            | Some f \<Rightarrow> returnP f) (\<lambda>fmt.
     bindP (fprintf_stderr ''Warning: %s: '' [ArgStr name]) (\<lambda>_.
     bindP (vfprintf_stderr fmt ap) (\<lambda>ret.
     bindP (if ret \<le> 0
            then bindP (fprintf_stderr ''[%s vfprintf returned error: %d]'' [ArgStr ''warnp'', ArgInt ret])
                   (\<lambda>_. returnP ())
            else returnP ()) (\<lambda>_.
     bindP (fputc_stderr CHR ''\<newline>'') (\<lambda>_.
     bindP (fprintf_stderr ''errno[%d]: %s\<newline>'' [ArgInt saved_errno, ArgStr (strerror saved_errno)])
       (\<lambda>_. returnP ()))))))))"

definition err :: "int \<Rightarrow> string option \<Rightarrow> string option \<Rightarrow> arg list \<Rightarrow> unit prog" where
  "err exitcode name fmt ap =
     bindP (if exitcode \<ge> 256 then
              bindP (warn (Some ''err'') (Some ''called with exitcode >= 256: %d'') [ArgInt exitcode]) (\<lambda>_.
              let exitcode = FORCED_EXIT in
              bindP (warn (Some ''err'') (Some ''forcing exit code: %d'') [ArgInt exitcode]) (\<lambda>_.
              returnP exitcode))
            else returnP exitcode) (\<lambda>exitcode.
     bindP (if exitcode < 0 then
              bindP (warn (Some ''err'') (Some ''called with exitcode < 0: %d'') [ArgInt exitcode]) (\<lambda>_.
              let exitcode = FORCED_EXIT in
              bindP (warn (Some ''err'') (Some ''forcing exit code: %d'') [ArgInt exitcode]) (\<lambda>_.
              returnP exitcode))
            else returnP exitcode) (\<lambda>exitcode.
     bindP (case name of
              None \<Rightarrow>
                bindP (warn (Some ''err'') (Some ''called with NULL name'') [])
                  (\<lambda>_. returnP ''((NULL name))'')
            | Some n \<Rightarrow> returnP n) (\<lambda>name.
     bindP (case fmt of
              None \<Rightarrow>
                bindP (warn (Some ''err'') (Some ''called with NULL fmt'') [])
                  (\<lambda>_. returnP ''((NULL fmt))'')
            | Some f \<Rightarrow> returnP f) (\<lambda>fmt.
     bindP (fprintf_stderr ''FATAL: %s: '' [ArgStr name]) (\<lambda>_.
     bindP (vfprintf_stderr fmt ap) (\<lambda>ret.
     bindP (if ret \<le> 0
            then bindP (fprintf_stderr ''[%s vfprintf returned error: %d]'' [ArgStr ''err'', ArgInt ret])
                   (\<lambda>_. returnP ())
            else returnP ()) (\<lambda>_.
     bindP (fputc_stderr CHR ''\<newline>'') (\<lambda>_.
     exit_proc exitcode))))))))"

definition errp :: "int \<Rightarrow> string option \<Rightarrow> string option \<Rightarrow> arg list \<Rightarrow> unit prog" where
  "errp exitcode name fmt ap =
     bindP (getP errno) (\<lambda>saved_errno.
     bindP (if exitcode \<ge> 256 then
              bindP (warn (Some ''errp'') (Some ''called with exitcode >= 256: %d'') [ArgInt exitcode]) (\<lambda>_.
              let exitcode = FORCED_EXIT in
              bindP (warn (Some ''errp'') (Some ''forcing exit code: %d'') [ArgInt exitcode]) (\<lambda>_.
              returnP exitcode))
            else returnP exitcode) (\<lambda>exitcode.
     bindP (if exitcode < 0 then
              bindP (warn (Some ''errp'') (Some ''called with exitcode < 0: %d'') [ArgInt exitcode]) (\<lambda>_.
              let exitcode = FORCED_EXIT in
              bindP (warn (Some ''errp'') (Some ''forcing exit code: %d'') [ArgInt exitcode]) (\<lambda>_.
              returnP exitcode))
            else returnP exitcode) (\<lambda>exitcode.
     bindP (case name of
              None \<Rightarrow>
                bindP (warn (Some ''errp'') (Some ''called with NULL name'') [])
                  (\<lambda>_. returnP ''((NULL name))'')
            | Some n \<Rightarrow> returnP n) (\<lambda>name.
     bindP (case fmt of
              None \<Rightarrow>
                bindP (warn (Some ''errp'') (Some ''called with NULL fmt'') [])
                  (\<lambda>_. returnP ''((NULL fmt))'')
            | Some f \<Rightarrow> returnP f) (\<lambda>fmt.
     bindP (fprintf_stderr ''FATAL: %s: '' [ArgStr name]) (\<lambda>_.
     bindP (vfprintf_stderr fmt ap) (\<lambda>ret.
     bindP (if ret \<le> 0
            then bindP (fprintf_stderr ''[%s vfprintf returned error: %d]'' [ArgStr ''errp'', ArgInt ret])
                   (\<lambda>_. returnP ())
            else returnP ()) (\<lambda>_.
     bindP (fputc_stderr CHR ''\<newline>'') (\<lambda>_.
     bindP (getP errno) (\<lambda>e.
     bindP (if e \<noteq> 0
            then bindP (fprintf_stderr ''errno[%d]: %s\<newline>'' [ArgInt saved_errno, ArgStr (strerror saved_errno)])
                   (\<lambda>_. returnP ())
            else returnP ()) (\<lambda>_.
     exit_proc exitcode)))))))))))"

definition usage_err :: "int \<Rightarrow> string option \<Rightarrow> string option \<Rightarrow> arg list \<Rightarrow> unit prog" where
  "usage_err exitcode name fmt ap =
     bindP (if exitcode < 0 \<or> exitcode \<ge> 256 then
              bindP (warn (Some ''usage_err'') (Some ''exitcode must be >= 0 && < 256: %d'') [ArgInt exitcode]) (\<lambda>_.
              let exitcode = FORCED_EXIT in
              bindP (warn (Some ''usage_err'') (Some ''forcing exit code: %d'') [ArgInt exitcode]) (\<lambda>_.
              returnP exitcode))
            else returnP exitcode) (\<lambda>exitcode.
     bindP (case name of
              None \<Rightarrow>
                bindP (warn (Some ''usage_err'') (Some ''called with NULL name'') [])
                  (\<lambda>_. returnP ''((NULL name))'')
            | Some n \<Rightarrow> returnP n) (\<lambda>name.
     bindP (case fmt of
              None \<Rightarrow>
                bindP (warn (Some ''usage_err'') (Some ''called with NULL fmt'') [])
                  (\<lambda>_. returnP ''((NULL fmt))'')
            | Some f \<Rightarrow> returnP f) (\<lambda>fmt.
     bindP (if exitcode > 0 then
              bindP (fprintf_stderr ''FATAL: %s: '' [ArgStr name]) (\<lambda>_.
              bindP (vfprintf_stderr fmt ap) (\<lambda>ret.
              bindP (if ret \<le> 0
                     then bindP (fprintf_stderr ''%s: vfprintf returned error: %d'' [ArgStr ''usage_err'', ArgInt ret])
                            (\<lambda>_. returnP ())
                     else returnP ()) (\<lambda>_.
              fputc_stderr CHR ''\<newline>'')))
            else returnP ()) (\<lambda>_.
     bindP (getP program) (\<lambda>prog.
     bindP (case prog of
              None \<Rightarrow> fprintf_stderr ''For command line usage help, try using -h\<newline>'' []
            | Some p \<Rightarrow> fprintf_stderr ''For command line usage help, try: %s -h\<newline>'' [ArgStr p]) (\<lambda>_.
     bindP (getP version_string) (\<lambda>v.
     bindP (fprintf_stderr ''version: %s\<newline>'' [ArgStr v]) (\<lambda>_.
     exit_proc exitcode))))))))"

definition usage_errp :: "int \<Rightarrow> string option \<Rightarrow> string option \<Rightarrow> arg list \<Rightarrow> unit prog" where
  "usage_errp exitcode name fmt ap =
     bindP (getP errno) (\<lambda>saved_errno.
     bindP (if exitcode < 0 \<or> exitcode \<ge> 256 then
              bindP (warn (Some ''usage_errp'') (Some ''exitcode must be >= 0 && < 256: %d'') [ArgInt exitcode]) (\<lambda>_.
              let exitcode = FORCED_EXIT in
              bindP (warn (Some ''usage_errp'') (Some ''forcing exit code: %d'') [ArgInt exitcode]) (\<lambda>_.
              returnP exitcode))
            else returnP exitcode) (\<lambda>exitcode.
     bindP (case name of
              None \<Rightarrow>
                bindP (warn (Some ''usage_errp'') (Some ''called with NULL name'') [])
                  (\<lambda>_. returnP ''((NULL name))'')
            | Some n \<Rightarrow> returnP n) (\<lambda>name.
     bindP (case fmt of
              None \<Rightarrow>
                bindP (warn (Some ''usage_errp'') (Some ''called with NULL fmt'') [])
                  (\<lambda>_. returnP ''((NULL fmt))'')
            | Some f \<Rightarrow> returnP f) (\<lambda>fmt.
     bindP (if exitcode > 0 then
              bindP (fprintf_stderr ''FATAL: %s: '' [ArgStr name]) (\<lambda>_.
              bindP (vfprintf_stderr fmt ap) (\<lambda>ret.
              bindP (if ret \<le> 0
                     then bindP (fprintf_stderr ''%s: vfprintf returned error: %d'' [ArgStr ''usage_errp'', ArgInt ret])
                            (\<lambda>_. returnP ())
                     else returnP ()) (\<lambda>_.
              bindP (fputc_stderr CHR ''\<newline>'') (\<lambda>_.
              bindP (fprintf_stderr ''errno[%d]: %s\<newline>'' [ArgInt saved_errno, ArgStr (strerror saved_errno)])
                (\<lambda>_. returnP ())))))
            else returnP ()) (\<lambda>_.
     bindP (getP program) (\<lambda>prog.
     bindP (case prog of
              None \<Rightarrow> fprintf_stderr ''For command line usage help, try using -h\<newline>'' []
            | Some p \<Rightarrow> fprintf_stderr ''For command line usage help, try: %s -h\<newline>'' [ArgStr p]) (\<lambda>_.
     bindP (getP version_string) (\<lambda>v.
     bindP (fprintf_stderr ''%s'' [ArgStr v]) (\<lambda>_.
     exit_proc exitcode)))))))))"

subsection \<open>The texts the functions write\<close>

text \<open>
  Names for the pieces of output that the statements below talk about: each is the
  rendering of one \<open>fprintf\<close> call, or of one block of calls, of the source.

  \<open>message_text fn fmt ap\<close> is what the block ``\<open>ret = vfprintf(stderr, fmt, ap);
  if (ret <= 0) fprintf(stderr, "[%s vfprintf returned error: %d]", __func__, ret);\<close>''
  writes inside the function \<open>fn\<close>; \<open>usage_message_text\<close> is the same for the two
  usage functions, whose secondary diagnostic has another format.
\<close>

definition name_or_placeholder :: "string option \<Rightarrow> string" where
  "name_or_placeholder name = (case name of None \<Rightarrow> ''((NULL name))'' | Some n \<Rightarrow> n)"

definition fmt_or_placeholder :: "string option \<Rightarrow> string" where
  "fmt_or_placeholder fmt = (case fmt of None \<Rightarrow> ''((NULL fmt))'' | Some f \<Rightarrow> f)"

definition message_text :: "string \<Rightarrow> string \<Rightarrow> arg list \<Rightarrow> string" where
  "message_text fn fmt ap =
     fst (vformat fmt ap) @
     (if snd (vformat fmt ap) \<le> 0
      then ''['' @ fn @ '' vfprintf returned error: '' @ decimal (snd (vformat fmt ap)) @ '']''
      else [])"

definition usage_message_text :: "string \<Rightarrow> string \<Rightarrow> arg list \<Rightarrow> string" where
  "usage_message_text fn fmt ap =
     fst (vformat fmt ap) @
     (if snd (vformat fmt ap) \<le> 0
      then fn @ '': vfprintf returned error: '' @ decimal (snd (vformat fmt ap))
      else [])"

definition null_warnings :: "string \<Rightarrow> string option \<Rightarrow> string option \<Rightarrow> string" where
  "null_warnings fn name fmt =
     (case name of
        None \<Rightarrow> ''Warning: '' @ fn @ '': called with NULL name\<newline>''
      | Some _ \<Rightarrow> []) @
     (case fmt of
        None \<Rightarrow> ''Warning: '' @ fn @ '': called with NULL fmt\<newline>''
      | Some _ \<Rightarrow> [])"

definition errno_line :: "int \<Rightarrow> string" where
  "errno_line e = ''errno['' @ decimal e @ '']: '' @ strerror e @ ''\<newline>''"

definition usage_help :: "string option \<Rightarrow> string" where
  "usage_help prog =
     (case prog of
        None \<Rightarrow> ''For command line usage help, try using -h\<newline>''
      | Some p \<Rightarrow> ''For command line usage help, try: '' @ p @ '' -h\<newline>'')"

subsection \<open>The blocks the functions are made of\<close>

text \<open>
  \<open>debug.c\<close> repeats the same few blocks of statements in its functions, with
  \<open>__func__\<close> the only difference.  The proofs below name them, show once what each of
  them does, and read the four fatal functions as sequences of their blocks (the
  lemmas \<open>err_blocks\<close> to \<open>usage_errp_blocks\<close> say that this reading is the
  definition itself).  \<open>fn\<close> is the \<open>__func__\<close> of the function that contains the block; each
  block yields the value its variable has afterwards.
\<close>

definition ge256_check :: "string \<Rightarrow> int \<Rightarrow> int prog" where
  "ge256_check fn exitcode =
     (if exitcode \<ge> 256 then
        bindP (warn (Some fn) (Some ''called with exitcode >= 256: %d'') [ArgInt exitcode]) (\<lambda>_.
        let exitcode = FORCED_EXIT in
        bindP (warn (Some fn) (Some ''forcing exit code: %d'') [ArgInt exitcode]) (\<lambda>_.
        returnP exitcode))
      else returnP exitcode)"

definition lt0_check :: "string \<Rightarrow> int \<Rightarrow> int prog" where
  "lt0_check fn exitcode =
     (if exitcode < 0 then
        bindP (warn (Some fn) (Some ''called with exitcode < 0: %d'') [ArgInt exitcode]) (\<lambda>_.
        let exitcode = FORCED_EXIT in
        bindP (warn (Some fn) (Some ''forcing exit code: %d'') [ArgInt exitcode]) (\<lambda>_.
        returnP exitcode))
      else returnP exitcode)"

definition range_check :: "string \<Rightarrow> int \<Rightarrow> int prog" where
  "range_check fn exitcode =
     (if exitcode < 0 \<or> exitcode \<ge> 256 then
        bindP (warn (Some fn) (Some ''exitcode must be >= 0 && < 256: %d'') [ArgInt exitcode]) (\<lambda>_.
        let exitcode = FORCED_EXIT in
        bindP (warn (Some fn) (Some ''forcing exit code: %d'') [ArgInt exitcode]) (\<lambda>_.
        returnP exitcode))
      else returnP exitcode)"

definition null_name_check :: "string \<Rightarrow> string option \<Rightarrow> string prog" where
  "null_name_check fn name =
     (case name of
        None \<Rightarrow>
          bindP (warn (Some fn) (Some ''called with NULL name'') [])
            (\<lambda>_. returnP ''((NULL name))'')
      | Some n \<Rightarrow> returnP n)"

definition null_fmt_check :: "string \<Rightarrow> string option \<Rightarrow> string prog" where
  "null_fmt_check fn fmt =
     (case fmt of
        None \<Rightarrow>
          bindP (warn (Some fn) (Some ''called with NULL fmt'') [])
            (\<lambda>_. returnP ''((NULL fmt))'')
      | Some f \<Rightarrow> returnP f)"

definition message_block :: "string \<Rightarrow> string \<Rightarrow> arg list \<Rightarrow> unit prog" where
  "message_block fn fmt ap =
     bindP (vfprintf_stderr fmt ap) (\<lambda>ret.
     if ret \<le> 0
     then bindP (fprintf_stderr ''[%s vfprintf returned error: %d]'' [ArgStr fn, ArgInt ret])
            (\<lambda>_. returnP ())
     else returnP ())"

definition usage_message_block :: "string \<Rightarrow> string \<Rightarrow> arg list \<Rightarrow> unit prog" where
  "usage_message_block fn fmt ap =
     bindP (vfprintf_stderr fmt ap) (\<lambda>ret.
     if ret \<le> 0
     then bindP (fprintf_stderr ''%s: vfprintf returned error: %d'' [ArgStr fn, ArgInt ret])
            (\<lambda>_. returnP ())
     else returnP ())"

definition usage_help_block :: "unit prog" where
  "usage_help_block =
     bindP (getP program) (\<lambda>prog.
     bindP (case prog of
              None \<Rightarrow> fprintf_stderr ''For command line usage help, try using -h\<newline>'' []
            | Some p \<Rightarrow> fprintf_stderr ''For command line usage help, try: %s -h\<newline>'' [ArgStr p])
       (\<lambda>_. returnP ()))"

section \<open>What the library model and \<open>warn\<close> do\<close>

lemma bindP_returnP [simp]: "bindP (returnP x) k = k x"
  by (rule ext) (simp add: bindP_def returnP_def)

lemma bindP_getP [simp]: "bindP (getP f) k s = k (f s) s"
  by (simp add: bindP_def getP_def)

lemma bindP_assoc [simp]: "bindP (bindP m f) g = bindP m (\<lambda>x. bindP (f x) g)"
  by (rule ext) (simp add: bindP_def split: prod.split result.split)

lemma bindP_vfprintf [simp]:
  "bindP (vfprintf_stderr fmt ap) k s =
     k (snd (vformat fmt ap)) (libc_call (s\<lparr>stderr := stderr s @ fst (vformat fmt ap)\<rparr>))"
  by (simp add: bindP_def vfprintf_stderr_def split: prod.split)

lemma bindP_fprintf [simp]:
  "bindP (fprintf_stderr fmt ap) k s =
     k (snd (vformat fmt ap)) (libc_call (s\<lparr>stderr := stderr s @ fst (vformat fmt ap)\<rparr>))"
  by (simp add: fprintf_stderr_def)

lemma bindP_fputc [simp]:
  "bindP (fputc_stderr c) k s = k () (libc_call (s\<lparr>stderr := stderr s @ [c]\<rparr>))"
  by (simp add: bindP_def fputc_stderr_def)

lemma run_returnP [simp]: "returnP x s = (Ret x, s)"
  by (simp add: returnP_def)

lemma run_fputc [simp]: "fputc_stderr c s = (Ret (), libc_call (s\<lparr>stderr := stderr s @ [c]\<rparr>))"
  by (simp add: fputc_stderr_def)

lemma run_fprintf [simp]:
  "fprintf_stderr fmt ap s =
     (Ret (snd (vformat fmt ap)), libc_call (s\<lparr>stderr := stderr s @ fst (vformat fmt ap)\<rparr>))"
  by (simp add: fprintf_stderr_def vfprintf_stderr_def split: prod.split)

lemma run_exit [simp]: "exit_proc c s = (Exit (c mod 256), s)"
  by (simp add: exit_proc_def)

lemma libc_call_fields [simp]:
  "stderr (libc_call s) = stderr s"
  "debuglevel (libc_call s) = debuglevel s"
  "program (libc_call s) = program s"
  "version_string (libc_call s) = version_string s"
  by (simp_all add: libc_call_def split: list.split)

lemma format_out_plain: "CHR ''%'' \<notin> set fmt \<Longrightarrow> format_out fmt ap = (fmt, True)"
  by (induction fmt ap rule: format_out.induct) auto

lemma message_text_plain:
  "CHR ''%'' \<notin> set fmt \<Longrightarrow> fmt \<noteq> [] \<Longrightarrow> message_text fn fmt ap = fmt"
  by (simp add: message_text_def vformat_def format_out_plain)

lemma placeholder_simps [simp]:
  "name_or_placeholder (Some n) = n"
  "name_or_placeholder None = ''((NULL name))''"
  "fmt_or_placeholder (Some f) = f"
  "fmt_or_placeholder None = ''((NULL fmt))''"
  by (simp_all add: name_or_placeholder_def fmt_or_placeholder_def)

lemma warn_result [simp]: "fst (warn name fmt ap s) = Ret ()"
  by (simp add: warn_def split: option.split)

lemma warn_stderr:
  "stderr (snd (warn name fmt ap s)) =
     stderr s @
     (case name of None \<Rightarrow> ''Warning: warn called with NULL name\<newline>'' | Some _ \<Rightarrow> []) @
     (case fmt of None \<Rightarrow> ''Warning: warn called with NULL fmt\<newline>'' | Some _ \<Rightarrow> []) @
     ''Warning: '' @ name_or_placeholder name @ '': '' @
     message_text ''warn'' (fmt_or_placeholder fmt) ap @ ''\<newline>''"
  by (simp add: warn_def message_text_def vformat_def split: option.split)

lemma warn_fields [simp]:
  "debuglevel (snd (warn name fmt ap s)) = debuglevel s"
  "program (snd (warn name fmt ap s)) = program s"
  "version_string (snd (warn name fmt ap s)) = version_string s"
  by (simp_all add: warn_def split: option.split)

lemma bindP_Ret: "fst (m s) = Ret x \<Longrightarrow> bindP m k s = k x (snd (m s))"
  by (cases "m s") (simp add: bindP_def)

lemma bindP_warn [simp]: "bindP (warn name fmt ap) k s = k () (snd (warn name fmt ap s))"
  by (rule bindP_Ret) (rule warn_result)

lemma message_text_forcing:
  "message_text fn ''forcing exit code: %d'' [ArgInt c] = ''forcing exit code: '' @ decimal c"
  by (simp add: message_text_def vformat_def)

lemma message_text_ge256:
  "message_text fn ''called with exitcode >= 256: %d'' [ArgInt c] =
     ''called with exitcode >= 256: '' @ decimal c"
  by (simp add: message_text_def vformat_def)

lemma message_text_lt0:
  "message_text fn ''called with exitcode < 0: %d'' [ArgInt c] =
     ''called with exitcode < 0: '' @ decimal c"
  by (simp add: message_text_def vformat_def)

lemma message_text_range:
  "message_text fn ''exitcode must be >= 0 && < 256: %d'' [ArgInt c] =
     ''exitcode must be >= 0 && < 256: '' @ decimal c"
  by (simp add: message_text_def vformat_def)

lemma decimal_255: "decimal 255 = ''255''"
  by (simp add: decimal_def dec_nat.simps digit_def)

lemma msg_result: "fst (msg fmt ap s) = Ret ()"
  by (simp add: msg_def split: option.split)

lemma msg_stderr:
  "stderr (snd (msg fmt ap s)) =
     stderr s @
     (case fmt of None \<Rightarrow> ''Warning: msg: NULL fmt given to debug\<newline>'' | Some _ \<Rightarrow> []) @
     message_text ''msg'' (fmt_or_placeholder fmt) ap @ ''\<newline>''"
  by (simp add: msg_def warn_stderr message_text_def vformat_def split: option.split prod.split)

lemma dbg_result: "fst (dbg level fmt ap s) = Ret ()"
  by (simp add: dbg_def split: option.split)

lemma dbg_stderr:
  "stderr (snd (dbg level fmt ap s)) =
     stderr s @
     (case fmt of None \<Rightarrow> ''Warning: dbg: NULL fmt given to debug\<newline>'' | Some _ \<Rightarrow> []) @
     (if level \<le> debuglevel s
      then message_text ''dbg'' (fmt_or_placeholder fmt) ap @ ''\<newline>''
      else [])"
  by (simp add: dbg_def warn_stderr message_text_def vformat_def split: option.split prod.split)

lemma warnp_result: "fst (warnp name fmt ap s) = Ret ()"
  by (simp add: warnp_def split: option.split)

lemma warnp_stderr:
  "stderr (snd (warnp name fmt ap s)) =
     stderr s @
     (case name of None \<Rightarrow> ''Warning: warnp called with NULL name\<newline>'' | Some _ \<Rightarrow> []) @
     (case fmt of None \<Rightarrow> ''Warning: warnp called with NULL fmt\<newline>'' | Some _ \<Rightarrow> []) @
     ''Warning: '' @ name_or_placeholder name @ '': '' @
     message_text ''warnp'' (fmt_or_placeholder fmt) ap @ ''\<newline>'' @ errno_line (errno s)"
  by (simp add: warnp_def message_text_def vformat_def errno_line_def
      split: option.split prod.split)

lemma warn_plain:
  "CHR ''%'' \<notin> set fmt \<Longrightarrow> fmt \<noteq> [] \<Longrightarrow>
   stderr (snd (warn (Some fn) (Some fmt) ap s)) =
     stderr s @ ''Warning: '' @ fn @ '': '' @ fmt @ ''\<newline>''"
  by (simp add: warn_stderr message_text_plain)

lemma warn_null_name [simp]:
  "stderr (snd (warn (Some fn) (Some ''called with NULL name'') [] s)) =
     stderr s @ ''Warning: '' @ fn @ '': called with NULL name\<newline>''"
  by (simp add: warn_plain)

lemma warn_null_fmt [simp]:
  "stderr (snd (warn (Some fn) (Some ''called with NULL fmt'') [] s)) =
     stderr s @ ''Warning: '' @ fn @ '': called with NULL fmt\<newline>''"
  by (simp add: warn_plain)

lemma warn_forcing [simp]:
  "stderr (snd (warn (Some fn) (Some ''forcing exit code: %d'') [ArgInt 255] s)) =
     stderr s @ ''Warning: '' @ fn @ '': forcing exit code: 255\<newline>''"
  by (simp add: warn_stderr message_text_forcing decimal_255)

lemma warn_ge256 [simp]:
  "stderr (snd (warn (Some fn) (Some ''called with exitcode >= 256: %d'') [ArgInt c] s)) =
     stderr s @ ''Warning: '' @ fn @ '': called with exitcode >= 256: '' @ decimal c @ ''\<newline>''"
  by (simp add: warn_stderr message_text_ge256)

lemma warn_lt0 [simp]:
  "stderr (snd (warn (Some fn) (Some ''called with exitcode < 0: %d'') [ArgInt c] s)) =
     stderr s @ ''Warning: '' @ fn @ '': called with exitcode < 0: '' @ decimal c @ ''\<newline>''"
  by (simp add: warn_stderr message_text_lt0)

lemma warn_range [simp]:
  "stderr (snd (warn (Some fn) (Some ''exitcode must be >= 0 && < 256: %d'') [ArgInt c] s)) =
     stderr s @ ''Warning: '' @ fn @ '': exitcode must be >= 0 && < 256: '' @ decimal c @ ''\<newline>''"
  by (simp add: warn_stderr message_text_range)

lemma fatal_prefix [simp]:
  "fst (vformat ''FATAL: %s: '' [ArgStr n]) = ''FATAL: '' @ n @ '': ''"
  by (simp add: vformat_def)

lemma diag_text [simp]:
  "fst (vformat ''[%s vfprintf returned error: %d]'' [ArgStr fn, ArgInt r]) =
     ''['' @ fn @ '' vfprintf returned error: '' @ decimal r @ '']''"
  by (simp add: vformat_def)

lemma usage_diag_text [simp]:
  "fst (vformat ''%s: vfprintf returned error: %d'' [ArgStr fn, ArgInt r]) =
     fn @ '': vfprintf returned error: '' @ decimal r"
  by (simp add: vformat_def)

lemma errno_line_text [simp]:
  "fst (vformat ''errno[%d]: %s\<newline>'' [ArgInt e, ArgStr d]) =
     ''errno['' @ decimal e @ '']: '' @ d @ ''\<newline>''"
  by (simp add: vformat_def)

lemma usage_help_text [simp]:
  "fst (vformat ''For command line usage help, try using -h\<newline>'' []) =
     ''For command line usage help, try using -h\<newline>''"
  "fst (vformat ''For command line usage help, try: %s -h\<newline>'' [ArgStr p]) =
     ''For command line usage help, try: '' @ p @ '' -h\<newline>''"
  by (simp_all add: vformat_def)

lemma version_text [simp]:
  "fst (vformat ''version: %s\<newline>'' [ArgStr v]) = ''version: '' @ v @ ''\<newline>''"
  "fst (vformat ''%s'' [ArgStr v]) = v"
  by (simp_all add: vformat_def)

section \<open>The fatal functions, block by block\<close>

lemma err_blocks:
  "err exitcode name fmt ap =
     bindP (ge256_check ''err'' exitcode) (\<lambda>exitcode.
     bindP (lt0_check ''err'' exitcode) (\<lambda>exitcode.
     bindP (null_name_check ''err'' name) (\<lambda>name.
     bindP (null_fmt_check ''err'' fmt) (\<lambda>fmt.
     bindP (fprintf_stderr ''FATAL: %s: '' [ArgStr name]) (\<lambda>_.
     bindP (message_block ''err'' fmt ap) (\<lambda>_.
     bindP (fputc_stderr CHR ''\<newline>'') (\<lambda>_.
     exit_proc exitcode)))))))"
  by (simp only: bindP_assoc bindP_returnP err_def ge256_check_def lt0_check_def null_name_check_def null_fmt_check_def
      message_block_def)

lemma usage_err_blocks:
  "usage_err exitcode name fmt ap =
     bindP (range_check ''usage_err'' exitcode) (\<lambda>exitcode.
     bindP (null_name_check ''usage_err'' name) (\<lambda>name.
     bindP (null_fmt_check ''usage_err'' fmt) (\<lambda>fmt.
     bindP (if exitcode > 0 then
              bindP (fprintf_stderr ''FATAL: %s: '' [ArgStr name]) (\<lambda>_.
              bindP (usage_message_block ''usage_err'' fmt ap) (\<lambda>_.
              fputc_stderr CHR ''\<newline>''))
            else returnP ()) (\<lambda>_.
     bindP usage_help_block (\<lambda>_.
     bindP (getP version_string) (\<lambda>v.
     bindP (fprintf_stderr ''version: %s\<newline>'' [ArgStr v]) (\<lambda>_.
     exit_proc exitcode)))))))"
  by (simp only: bindP_assoc bindP_returnP usage_err_def range_check_def null_name_check_def null_fmt_check_def
      usage_message_block_def usage_help_block_def)

lemma errp_blocks:
  "errp exitcode name fmt ap =
     bindP (getP errno) (\<lambda>saved_errno.
     bindP (ge256_check ''errp'' exitcode) (\<lambda>exitcode.
     bindP (lt0_check ''errp'' exitcode) (\<lambda>exitcode.
     bindP (null_name_check ''errp'' name) (\<lambda>name.
     bindP (null_fmt_check ''errp'' fmt) (\<lambda>fmt.
     bindP (fprintf_stderr ''FATAL: %s: '' [ArgStr name]) (\<lambda>_.
     bindP (message_block ''errp'' fmt ap) (\<lambda>_.
     bindP (fputc_stderr CHR ''\<newline>'') (\<lambda>_.
     bindP (getP errno) (\<lambda>e.
     bindP (if e \<noteq> 0
            then bindP (fprintf_stderr ''errno[%d]: %s\<newline>''
                          [ArgInt saved_errno, ArgStr (strerror saved_errno)])
                   (\<lambda>_. returnP ())
            else returnP ()) (\<lambda>_.
     exit_proc exitcode))))))))))"
  by (simp only: bindP_assoc bindP_returnP errp_def ge256_check_def lt0_check_def
      null_name_check_def null_fmt_check_def message_block_def)

lemma usage_errp_blocks:
  "usage_errp exitcode name fmt ap =
     bindP (getP errno) (\<lambda>saved_errno.
     bindP (range_check ''usage_errp'' exitcode) (\<lambda>exitcode.
     bindP (null_name_check ''usage_errp'' name) (\<lambda>name.
     bindP (null_fmt_check ''usage_errp'' fmt) (\<lambda>fmt.
     bindP (if exitcode > 0 then
              bindP (fprintf_stderr ''FATAL: %s: '' [ArgStr name]) (\<lambda>_.
              bindP (usage_message_block ''usage_errp'' fmt ap) (\<lambda>_.
              bindP (fputc_stderr CHR ''\<newline>'') (\<lambda>_.
              bindP (fprintf_stderr ''errno[%d]: %s\<newline>''
                       [ArgInt saved_errno, ArgStr (strerror saved_errno)])
                (\<lambda>_. returnP ()))))
            else returnP ()) (\<lambda>_.
     bindP usage_help_block (\<lambda>_.
     bindP (getP version_string) (\<lambda>v.
     bindP (fprintf_stderr ''%s'' [ArgStr v]) (\<lambda>_.
     exit_proc exitcode))))))))"
  by (simp only: bindP_assoc bindP_returnP usage_errp_def range_check_def null_name_check_def
      null_fmt_check_def usage_message_block_def usage_help_block_def)

lemma ge256_check_result [simp]:
  "fst (ge256_check fn c s) = Ret (if c \<ge> 256 then 255 else c)"
  by (simp add: ge256_check_def FORCED_EXIT_def)

lemma ge256_check_stderr [simp]:
  "stderr (snd (ge256_check fn c s)) =
     stderr s @
     (if c \<ge> 256
      then ''Warning: '' @ fn @ '': called with exitcode >= 256: '' @ decimal c @ ''\<newline>'' @
           ''Warning: '' @ fn @ '': forcing exit code: 255\<newline>''
      else [])"
  by (simp add: ge256_check_def FORCED_EXIT_def)

lemma ge256_check_fields [simp]:
  "debuglevel (snd (ge256_check fn c s)) = debuglevel s"
  "program (snd (ge256_check fn c s)) = program s"
  "version_string (snd (ge256_check fn c s)) = version_string s"
  by (simp_all add: ge256_check_def FORCED_EXIT_def)

lemma lt0_check_result [simp]:
  "fst (lt0_check fn c s) = Ret (if c < 0 then 255 else c)"
  by (simp add: lt0_check_def FORCED_EXIT_def)

lemma lt0_check_stderr [simp]:
  "stderr (snd (lt0_check fn c s)) =
     stderr s @
     (if c < 0
      then ''Warning: '' @ fn @ '': called with exitcode < 0: '' @ decimal c @ ''\<newline>'' @
           ''Warning: '' @ fn @ '': forcing exit code: 255\<newline>''
      else [])"
  by (simp add: lt0_check_def FORCED_EXIT_def)

lemma lt0_check_fields [simp]:
  "debuglevel (snd (lt0_check fn c s)) = debuglevel s"
  "program (snd (lt0_check fn c s)) = program s"
  "version_string (snd (lt0_check fn c s)) = version_string s"
  by (simp_all add: lt0_check_def FORCED_EXIT_def)

lemma range_check_result [simp]:
  "fst (range_check fn c s) = Ret (if c < 0 \<or> c \<ge> 256 then 255 else c)"
  by (simp add: range_check_def FORCED_EXIT_def)

lemma range_check_stderr [simp]:
  "stderr (snd (range_check fn c s)) =
     stderr s @
     (if c < 0 \<or> c \<ge> 256
      then ''Warning: '' @ fn @ '': exitcode must be >= 0 && < 256: '' @ decimal c @ ''\<newline>'' @
           ''Warning: '' @ fn @ '': forcing exit code: 255\<newline>''
      else [])"
  by (simp add: range_check_def FORCED_EXIT_def)

lemma range_check_fields [simp]:
  "debuglevel (snd (range_check fn c s)) = debuglevel s"
  "program (snd (range_check fn c s)) = program s"
  "version_string (snd (range_check fn c s)) = version_string s"
  by (simp_all add: range_check_def FORCED_EXIT_def)

lemma null_name_check_result [simp]:
  "fst (null_name_check fn name s) = Ret (name_or_placeholder name)"
  by (simp add: null_name_check_def split: option.split)

lemma null_fmt_check_result [simp]:
  "fst (null_fmt_check fn fmt s) = Ret (fmt_or_placeholder fmt)"
  by (simp add: null_fmt_check_def split: option.split)

lemma null_checks_stderr [simp]:
  "stderr (snd (null_fmt_check fn fmt (snd (null_name_check fn name s)))) =
     stderr s @ null_warnings fn name fmt"
  by (simp add: null_name_check_def null_fmt_check_def null_warnings_def split: option.split)

lemma null_name_check_fields [simp]:
  "debuglevel (snd (null_name_check fn name s)) = debuglevel s"
  "program (snd (null_name_check fn name s)) = program s"
  "version_string (snd (null_name_check fn name s)) = version_string s"
  by (simp_all add: null_name_check_def split: option.split)

lemma null_fmt_check_fields [simp]:
  "debuglevel (snd (null_fmt_check fn fmt s)) = debuglevel s"
  "program (snd (null_fmt_check fn fmt s)) = program s"
  "version_string (snd (null_fmt_check fn fmt s)) = version_string s"
  by (simp_all add: null_fmt_check_def split: option.split)

lemma message_block_result [simp]: "fst (message_block fn fmt ap s) = Ret ()"
  by (simp add: message_block_def)

lemma message_block_stderr [simp]:
  "stderr (snd (message_block fn fmt ap s)) = stderr s @ message_text fn fmt ap"
  by (simp add: message_block_def message_text_def)

lemma message_block_fields [simp]:
  "debuglevel (snd (message_block fn fmt ap s)) = debuglevel s"
  "program (snd (message_block fn fmt ap s)) = program s"
  "version_string (snd (message_block fn fmt ap s)) = version_string s"
  by (simp_all add: message_block_def)

lemma usage_message_block_result [simp]: "fst (usage_message_block fn fmt ap s) = Ret ()"
  by (simp add: usage_message_block_def)

lemma usage_message_block_stderr [simp]:
  "stderr (snd (usage_message_block fn fmt ap s)) = stderr s @ usage_message_text fn fmt ap"
  by (simp add: usage_message_block_def usage_message_text_def)

lemma usage_message_block_fields [simp]:
  "debuglevel (snd (usage_message_block fn fmt ap s)) = debuglevel s"
  "program (snd (usage_message_block fn fmt ap s)) = program s"
  "version_string (snd (usage_message_block fn fmt ap s)) = version_string s"
  by (simp_all add: usage_message_block_def)

lemma usage_help_block_result [simp]: "fst (usage_help_block s) = Ret ()"
  by (simp add: usage_help_block_def split: option.split)

lemma usage_help_block_stderr [simp]:
  "stderr (snd (usage_help_block s)) = stderr s @ usage_help (program s)"
  by (simp add: usage_help_block_def usage_help_def split: option.split)

lemma usage_help_block_fields [simp]:
  "debuglevel (snd (usage_help_block s)) = debuglevel s"
  "program (snd (usage_help_block s)) = program s"
  "version_string (snd (usage_help_block s)) = version_string s"
  by (simp_all add: usage_help_block_def split: option.split)

lemma bindP_blocks [simp]:
  "bindP (ge256_check fn c) k s = k (if c \<ge> 256 then 255 else c) (snd (ge256_check fn c s))"
  "bindP (lt0_check fn c) k s = k (if c < 0 then 255 else c) (snd (lt0_check fn c s))"
  "bindP (range_check fn c) k s =
     k (if c < 0 \<or> c \<ge> 256 then 255 else c) (snd (range_check fn c s))"
  "bindP (null_name_check fn name) kn s =
     kn (name_or_placeholder name) (snd (null_name_check fn name s))"
  "bindP (null_fmt_check fn fmt) kn s =
     kn (fmt_or_placeholder fmt) (snd (null_fmt_check fn fmt s))"
  "bindP (message_block fn f ap) ku s = ku () (snd (message_block fn f ap s))"
  "bindP (usage_message_block fn f ap) ku s = ku () (snd (usage_message_block fn f ap s))"
  "bindP usage_help_block ku s = ku () (snd (usage_help_block s))"
  by (rule bindP_Ret, simp)+

lemma err_result: "fst (err c name fmt ap s) = Exit (if 0 \<le> c \<and> c < 256 then c else 255)"
  by (simp add: err_blocks)

lemma err_stderr:
  "stderr (snd (err c name fmt ap s)) =
     stderr s @
     (if c \<ge> 256
      then ''Warning: err: called with exitcode >= 256: '' @ decimal c @ ''\<newline>'' @
           ''Warning: err: forcing exit code: 255\<newline>''
      else []) @
     (if c < 0
      then ''Warning: err: called with exitcode < 0: '' @ decimal c @ ''\<newline>'' @
           ''Warning: err: forcing exit code: 255\<newline>''
      else []) @
     null_warnings ''err'' name fmt @
     ''FATAL: '' @ name_or_placeholder name @ '': '' @
     message_text ''err'' (fmt_or_placeholder fmt) ap @ ''\<newline>''"
  by (simp add: err_blocks)

lemma errp_result: "fst (errp c name fmt ap s) = Exit (if 0 \<le> c \<and> c < 256 then c else 255)"
  by (simp add: errp_blocks)

lemma errp_stderr:
  "\<exists>sfx. (sfx = [] \<or> sfx = errno_line (errno s)) \<and>
   stderr (snd (errp c name fmt ap s)) =
     stderr s @
     (if c \<ge> 256
      then ''Warning: errp: called with exitcode >= 256: '' @ decimal c @ ''\<newline>'' @
           ''Warning: errp: forcing exit code: 255\<newline>''
      else []) @
     (if c < 0
      then ''Warning: errp: called with exitcode < 0: '' @ decimal c @ ''\<newline>'' @
           ''Warning: errp: forcing exit code: 255\<newline>''
      else []) @
     null_warnings ''errp'' name fmt @
     ''FATAL: '' @ name_or_placeholder name @ '': '' @
     message_text ''errp'' (fmt_or_placeholder fmt) ap @ ''\<newline>'' @ sfx"
  by (simp add: errp_blocks errno_line_def)

lemma libc_call_errno_nz [simp]: "errno s \<noteq> 0 \<Longrightarrow> errno (libc_call s) \<noteq> 0"
  by (simp add: libc_call_def split: list.split)

lemma libc_call_quiet [simp]: "libc_errno s = [] \<Longrightarrow> libc_call s = s"
  by (simp add: libc_call_def)

lemma warn_errno_nz [simp]: "errno s \<noteq> 0 \<Longrightarrow> errno (snd (warn name fmt ap s)) \<noteq> 0"
  by (simp add: warn_def split: option.split)

lemma warn_quiet [simp]:
  "libc_errno s = [] \<Longrightarrow> errno (snd (warn name fmt ap s)) = errno s"
  "libc_errno s = [] \<Longrightarrow> libc_errno (snd (warn name fmt ap s)) = []"
  by (simp_all add: warn_def split: option.split)

lemma blocks_errno_nz [simp]:
  "errno s \<noteq> 0 \<Longrightarrow> errno (snd (ge256_check fn c s)) \<noteq> 0"
  "errno s \<noteq> 0 \<Longrightarrow> errno (snd (lt0_check fn c s)) \<noteq> 0"
  "errno s \<noteq> 0 \<Longrightarrow> errno (snd (null_name_check fn name s)) \<noteq> 0"
  "errno s \<noteq> 0 \<Longrightarrow> errno (snd (null_fmt_check fn fmt s)) \<noteq> 0"
  "errno s \<noteq> 0 \<Longrightarrow> errno (snd (message_block fn f ap s)) \<noteq> 0"
  by (simp_all add: ge256_check_def lt0_check_def null_name_check_def null_fmt_check_def
      message_block_def FORCED_EXIT_def split: option.split)

lemma blocks_quiet [simp]:
  "libc_errno s = [] \<Longrightarrow> errno (snd (ge256_check fn c s)) = errno s"
  "libc_errno s = [] \<Longrightarrow> libc_errno (snd (ge256_check fn c s)) = []"
  "libc_errno s = [] \<Longrightarrow> errno (snd (lt0_check fn c s)) = errno s"
  "libc_errno s = [] \<Longrightarrow> libc_errno (snd (lt0_check fn c s)) = []"
  "libc_errno s = [] \<Longrightarrow> errno (snd (null_name_check fn name s)) = errno s"
  "libc_errno s = [] \<Longrightarrow> libc_errno (snd (null_name_check fn name s)) = []"
  "libc_errno s = [] \<Longrightarrow> errno (snd (null_fmt_check fn fmt s)) = errno s"
  "libc_errno s = [] \<Longrightarrow> libc_errno (snd (null_fmt_check fn fmt s)) = []"
  "libc_errno s = [] \<Longrightarrow> errno (snd (message_block fn f ap s)) = errno s"
  "libc_errno s = [] \<Longrightarrow> libc_errno (snd (message_block fn f ap s)) = []"
  by (simp_all add: ge256_check_def lt0_check_def null_name_check_def null_fmt_check_def
      message_block_def FORCED_EXIT_def split: option.split)

lemma errp_stderr_nz:
  "errno s \<noteq> 0 \<Longrightarrow>
   stderr (snd (errp c name fmt ap s)) =
     stderr s @
     (if c \<ge> 256
      then ''Warning: errp: called with exitcode >= 256: '' @ decimal c @ ''\<newline>'' @
           ''Warning: errp: forcing exit code: 255\<newline>''
      else []) @
     (if c < 0
      then ''Warning: errp: called with exitcode < 0: '' @ decimal c @ ''\<newline>'' @
           ''Warning: errp: forcing exit code: 255\<newline>''
      else []) @
     null_warnings ''errp'' name fmt @
     ''FATAL: '' @ name_or_placeholder name @ '': '' @
     message_text ''errp'' (fmt_or_placeholder fmt) ap @ ''\<newline>'' @ errno_line (errno s)"
  by (simp add: errp_blocks errno_line_def)

lemma errp_stderr_quiet:
  "errno s = 0 \<Longrightarrow> libc_errno s = [] \<Longrightarrow>
   stderr (snd (errp c name fmt ap s)) =
     stderr s @
     (if c \<ge> 256
      then ''Warning: errp: called with exitcode >= 256: '' @ decimal c @ ''\<newline>'' @
           ''Warning: errp: forcing exit code: 255\<newline>''
      else []) @
     (if c < 0
      then ''Warning: errp: called with exitcode < 0: '' @ decimal c @ ''\<newline>'' @
           ''Warning: errp: forcing exit code: 255\<newline>''
      else []) @
     null_warnings ''errp'' name fmt @
     ''FATAL: '' @ name_or_placeholder name @ '': '' @
     message_text ''errp'' (fmt_or_placeholder fmt) ap @ ''\<newline>'' @ []"
  by (simp add: errp_blocks)

lemma usage_err_result:
  "fst (usage_err c name fmt ap s) = Exit (if 0 \<le> c \<and> c < 256 then c else 255)"
  by (simp add: usage_err_blocks)

lemma usage_err_stderr:
  "stderr (snd (usage_err c name fmt ap s)) =
     stderr s @
     (if c < 0 \<or> c \<ge> 256
      then ''Warning: usage_err: exitcode must be >= 0 && < 256: '' @ decimal c @ ''\<newline>'' @
           ''Warning: usage_err: forcing exit code: 255\<newline>''
      else []) @
     null_warnings ''usage_err'' name fmt @
     (if c = 0 then []
      else ''FATAL: '' @ name_or_placeholder name @ '': '' @
           usage_message_text ''usage_err'' (fmt_or_placeholder fmt) ap @ ''\<newline>'') @
     usage_help (program s) @ ''version: '' @ version_string s @ ''\<newline>''"
  by (simp add: usage_err_blocks)

lemma usage_errp_result:
  "fst (usage_errp c name fmt ap s) = Exit (if 0 \<le> c \<and> c < 256 then c else 255)"
  by (simp add: usage_errp_blocks)

lemma usage_errp_stderr:
  "stderr (snd (usage_errp c name fmt ap s)) =
     stderr s @
     (if c < 0 \<or> c \<ge> 256
      then ''Warning: usage_errp: exitcode must be >= 0 && < 256: '' @ decimal c @ ''\<newline>'' @
           ''Warning: usage_errp: forcing exit code: 255\<newline>''
      else []) @
     null_warnings ''usage_errp'' name fmt @
     (if c = 0 then []
      else ''FATAL: '' @ name_or_placeholder name @ '': '' @
           usage_message_text ''usage_errp'' (fmt_or_placeholder fmt) ap @ ''\<newline>'' @
           errno_line (errno s)) @
     usage_help (program s) @ version_string s"
  by (simp add: usage_errp_blocks errno_line_def)

lemma ex_front3: "x = s @ a @ b @ c @ rest \<Longrightarrow> \<exists>front. x = s @ front @ rest"
  by (rule exI [of _ "a @ b @ c"]) simp


lemma ex_front2: "x = s @ a @ b @ rest \<Longrightarrow> \<exists>front. x = s @ front @ rest"
  by (rule exI [of _ "a @ b"]) simp

lemma ex_front1: "x = s @ a @ rest \<Longrightarrow> \<exists>front. x = s @ front @ rest"
  by (rule exI)

lemma usage_message_text_plain:
  "CHR ''%'' \<notin> set fmt \<Longrightarrow> fmt \<noteq> [] \<Longrightarrow> usage_message_text fn fmt ap = fmt"
  by (simp add: usage_message_text_def vformat_def format_out_plain)

lemma front_then_line:
  assumes "\<And>s'. stderr (snd (f s')) = stderr s' @ a1 @ a2 @ a3 @ a4 @ a5 @ a6 @ a7 @ l (errno s')"
  shows "\<exists>front. \<forall>e script.
      stderr (snd (f (s\<lparr>errno := e, libc_errno := script\<rparr>))) = stderr s @ front @ l e"
  by (rule exI [of _ "a1 @ a2 @ a3 @ a4 @ a5 @ a6 @ a7"]) (simp add: assms)

lemma front_maybe_line:
  assumes any: "\<And>s'. \<exists>sfx. (sfx = [] \<or> sfx = l (errno s')) \<and>
      stderr (snd (f s')) = stderr s' @ a1 @ a2 @ a3 @ a4 @ a5 @ a6 @ a7 @ a8 @ sfx"
    and nz: "\<And>s'. errno s' \<noteq> 0 \<Longrightarrow>
      stderr (snd (f s')) = stderr s' @ a1 @ a2 @ a3 @ a4 @ a5 @ a6 @ a7 @ a8 @ l (errno s')"
    and quiet: "\<And>s'. errno s' = 0 \<Longrightarrow> libc_errno s' = [] \<Longrightarrow>
      stderr (snd (f s')) = stderr s' @ a1 @ a2 @ a3 @ a4 @ a5 @ a6 @ a7 @ a8 @ []"
  shows "\<exists>front.
      (\<forall>e script. e \<noteq> 0 \<longrightarrow>
         stderr (snd (f (s\<lparr>errno := e, libc_errno := script\<rparr>))) = stderr s @ front @ l e) \<and>
      (\<forall>script.
         stderr (snd (f (s\<lparr>errno := 0, libc_errno := script\<rparr>))) = stderr s @ front \<or>
         stderr (snd (f (s\<lparr>errno := 0, libc_errno := script\<rparr>))) = stderr s @ front @ l 0) \<and>
      stderr (snd (f (s\<lparr>errno := 0, libc_errno := []\<rparr>))) = stderr s @ front"
proof (rule exI [of _ "a1 @ a2 @ a3 @ a4 @ a5 @ a6 @ a7 @ a8"], intro conjI allI impI)
  fix e :: int and script
  assume "e \<noteq> 0"
  then show "stderr (snd (f (s\<lparr>errno := e, libc_errno := script\<rparr>))) =
      stderr s @ (a1 @ a2 @ a3 @ a4 @ a5 @ a6 @ a7 @ a8) @ l e"
    using nz [of "s\<lparr>errno := e, libc_errno := script\<rparr>"] by simp
next
  fix script
  from any [of "s\<lparr>errno := 0, libc_errno := script\<rparr>"]
  obtain sfx where "sfx = [] \<or> sfx = l 0"
    and "stderr (snd (f (s\<lparr>errno := 0, libc_errno := script\<rparr>))) =
      stderr s @ a1 @ a2 @ a3 @ a4 @ a5 @ a6 @ a7 @ a8 @ sfx"
    by auto
  then show "stderr (snd (f (s\<lparr>errno := 0, libc_errno := script\<rparr>))) =
        stderr s @ (a1 @ a2 @ a3 @ a4 @ a5 @ a6 @ a7 @ a8) \<or>
      stderr (snd (f (s\<lparr>errno := 0, libc_errno := script\<rparr>))) =
        stderr s @ (a1 @ a2 @ a3 @ a4 @ a5 @ a6 @ a7 @ a8) @ l 0"
    by auto
next
  show "stderr (snd (f (s\<lparr>errno := 0, libc_errno := []\<rparr>))) =
      stderr s @ (a1 @ a2 @ a3 @ a4 @ a5 @ a6 @ a7 @ a8)"
    using quiet [of "s\<lparr>errno := 0, libc_errno := []\<rparr>"] by simp
qed

lemma front_line_rest:
  assumes "\<And>s'. stderr (snd (f s')) =
      stderr s' @ a1 @ a2 @ (if z then [] else a3 @ a4 @ a5 @ a6 @ a7 @ l (errno s')) @
      h (program s') @ version_string s'"
  shows "\<exists>front rest. \<forall>e script.
      stderr (snd (f (s\<lparr>errno := e, libc_errno := script\<rparr>))) =
        stderr s @ front @ (if z then [] else l e) @ rest"
  by (rule exI [of _ "a1 @ a2 @ (if z then [] else a3 @ a4 @ a5 @ a6 @ a7)"],
      rule exI [of _ "h (program s) @ version_string s"])
    (simp add: assms)

section \<open>The claims\<close>

text \<open>
  In every statement \<open>s\<close> is the state of the process when the function is called:
  \<open>stderr s\<close> is what was written before the call, \<open>errno s\<close> the error code at entry,
  and \<open>libc_errno s\<close> whatever the C library will do to \<open>errno\<close> during the call.  All
  of them are arbitrary unless the statement fixes them.
\<close>

text \<open>
  C1.  The claim is that \<open>errp\<close> prints the \<open>errno\<close> line exactly when the error code
  captured at entry is nonzero.  The source captures \<open>errno\<close> in \<open>saved_errno\<close> and
  prints \<open>saved_errno\<close>, but the test before the line reads \<open>errno\<close> itself, after the
  library calls that wrote the message.  Entered with \<open>errno = 0\<close>, \<open>errp\<close> prints
  \<open>errno[0]: Success\<close> as soon as one of those calls has set \<open>errno\<close> (here the second,
  to 11); when none does, it prints no such line.
\<close>

theorem errp_zero_errno_suffix:
  "stderr (snd (errp 1 (Some ''open'') (Some ''cannot open %s'') [ArgStr ''file.txt'']
     \<lparr>stderr = [], errno = 0, debuglevel = 0, program = None, version_string = ''1.0'',
      libc_errno = [0, 11]\<rparr>)) =
     ''FATAL: open: cannot open file.txt\<newline>errno[0]: Success\<newline>'' \<and>
   stderr (snd (errp 1 (Some ''open'') (Some ''cannot open %s'') [ArgStr ''file.txt'']
     \<lparr>stderr = [], errno = 0, debuglevel = 0, program = None, version_string = ''1.0'',
      libc_errno = []\<rparr>)) =
     ''FATAL: open: cannot open file.txt\<newline>''"
  by code_simp

text \<open>
  C2.  As stated the claim fails: when \<open>vfprintf\<close> returns zero or less, \<open>dbg\<close> writes
  the secondary diagnostic of the source between the message and the newline.  An empty
  format is the simplest case: \<open>vfprintf\<close> writes nothing and returns 0, and the output
  is the diagnostic and the newline, not the newline alone.
\<close>

theorem dbg_empty_message_counterexample:
  "stderr (snd (dbg 0 (Some []) []
     \<lparr>stderr = [], errno = 0, debuglevel = 0, program = None, version_string = ''1.0'',
      libc_errno = []\<rparr>)) =
     ''[dbg vfprintf returned error: 0]\<newline>'' \<and>
   stderr (snd (dbg 0 (Some []) []
     \<lparr>stderr = [], errno = 0, debuglevel = 0, program = None, version_string = ''1.0'',
      libc_errno = []\<rparr>)) \<noteq>
     fst (vformat [] []) @ ''\<newline>''"
  by code_simp

text \<open>
  C2, amended.  \<open>dbg\<close> with a non-null format writes exactly when the requested level
  is at most \<open>debuglevel\<close>, and nothing otherwise.  What it writes is the text
  \<open>vfprintf\<close> produced, then, only when \<open>vfprintf\<close> returned zero or less, the
  diagnostic \<open>[dbg vfprintf returned error: ...]\<close> with that return value, then the
  newline.
\<close>

theorem dbg_gate:
  "stderr (snd (dbg level (Some fmt) ap s)) =
     stderr s @
     (if level \<le> debuglevel s
      then fst (vformat fmt ap) @
           (if snd (vformat fmt ap) \<le> 0
            then ''[dbg vfprintf returned error: '' @ decimal (snd (vformat fmt ap)) @ '']''
            else []) @
           ''\<newline>''
      else []) \<and>
   (stderr (snd (dbg level (Some fmt) ap s)) \<noteq> stderr s) = (level \<le> debuglevel s)"
  by (simp add: dbg_stderr message_text_def)

text \<open>
  C3.  \<open>warnp\<close>, \<open>errp\<close> and \<open>usage_errp\<close> render the error code that \<open>errno\<close> held when
  they were entered, whatever the library calls made during the call do to \<open>errno\<close>:
  for given arguments there is one text \<open>front\<close> such that, for every entry value
  \<open>e\<close> and every behaviour \<open>script\<close> of the library, the output of \<open>warnp\<close> is
  \<open>front\<close> followed by the \<open>errno\<close> line of \<open>e\<close>, and so is the output of \<open>usage_errp\<close>,
  with the usage help after it (and without the line when the exit code is 0).  \<open>errp\<close>
  entered with a nonzero \<open>e\<close> writes \<open>front\<close> and the \<open>errno\<close> line of \<open>e\<close>, whatever
  the library does; entered with \<open>e = 0\<close> it writes \<open>front\<close> alone when the library
  leaves \<open>errno\<close> alone, and otherwise \<open>front\<close> with or without the line of the
  entry value 0, never a line of a later value.  The line shows the code and its
  \<open>strerror\<close> description.
\<close>

theorem errno_rendered_as_captured:
  "(\<exists>front. \<forall>e script.
      stderr (snd (warnp name fmt ap (s\<lparr>errno := e, libc_errno := script\<rparr>))) =
        stderr s @ front @ errno_line e) \<and>
   (\<exists>front.
      (\<forall>e script. e \<noteq> 0 \<longrightarrow>
         stderr (snd (errp c name fmt ap (s\<lparr>errno := e, libc_errno := script\<rparr>))) =
           stderr s @ front @ errno_line e) \<and>
      (\<forall>script.
         stderr (snd (errp c name fmt ap (s\<lparr>errno := 0, libc_errno := script\<rparr>))) =
           stderr s @ front \<or>
         stderr (snd (errp c name fmt ap (s\<lparr>errno := 0, libc_errno := script\<rparr>))) =
           stderr s @ front @ errno_line 0) \<and>
      stderr (snd (errp c name fmt ap (s\<lparr>errno := 0, libc_errno := []\<rparr>))) =
        stderr s @ front) \<and>
   (\<exists>front rest. \<forall>e script.
      stderr (snd (usage_errp c name fmt ap (s\<lparr>errno := e, libc_errno := script\<rparr>))) =
        stderr s @ front @ (if c = 0 then [] else errno_line e) @ rest) \<and>
   errno_line saved_errno =
     ''errno['' @ decimal saved_errno @ '']: '' @ strerror saved_errno @ ''\<newline>''"
proof (intro conjI)
  show "\<exists>front. \<forall>e script.
      stderr (snd (warnp name fmt ap (s\<lparr>errno := e, libc_errno := script\<rparr>))) =
        stderr s @ front @ errno_line e"
    by (rule front_then_line [where f = "warnp name fmt ap" and l = errno_line])
      (rule warnp_stderr)
  show "\<exists>front.
      (\<forall>e script. e \<noteq> 0 \<longrightarrow>
         stderr (snd (errp c name fmt ap (s\<lparr>errno := e, libc_errno := script\<rparr>))) =
           stderr s @ front @ errno_line e) \<and>
      (\<forall>script.
         stderr (snd (errp c name fmt ap (s\<lparr>errno := 0, libc_errno := script\<rparr>))) =
           stderr s @ front \<or>
         stderr (snd (errp c name fmt ap (s\<lparr>errno := 0, libc_errno := script\<rparr>))) =
           stderr s @ front @ errno_line 0) \<and>
      stderr (snd (errp c name fmt ap (s\<lparr>errno := 0, libc_errno := []\<rparr>))) =
        stderr s @ front"
    by (rule front_maybe_line [where f = "errp c name fmt ap" and l = errno_line])
      (rule errp_stderr, erule errp_stderr_nz, erule (1) errp_stderr_quiet)
  show "\<exists>front rest. \<forall>e script.
      stderr (snd (usage_errp c name fmt ap (s\<lparr>errno := e, libc_errno := script\<rparr>))) =
        stderr s @ front @ (if c = 0 then [] else errno_line e) @ rest"
    by (rule front_line_rest [where f = "usage_errp c name fmt ap" and l = errno_line
          and h = usage_help])
      (rule usage_errp_stderr)
  show "errno_line saved_errno =
     ''errno['' @ decimal saved_errno @ '']: '' @ strerror saved_errno @ ''\<newline>''"
    by (simp add: errno_line_def)
qed

text \<open>
  Instances: \<open>warnp\<close> entered with \<open>errno = 5\<close>, \<open>errp\<close> entered with \<open>errno = 2\<close> and
  \<open>usage_errp\<close> entered with \<open>errno = 13\<close> report the error they were entered with,
  although their library calls set \<open>errno\<close> to 9 and then to 22 in the meantime.
\<close>

theorem errno_rendered_as_captured_witness:
  "stderr (snd (warnp (Some ''io'') (Some ''read failed'') []
     (\<lparr>stderr = [], errno = 0, debuglevel = 0, program = None, version_string = ''1.0'',
       libc_errno = []\<rparr>\<lparr>errno := 5, libc_errno := [9, 0, 22, 9]\<rparr>))) =
     ''Warning: io: read failed\<newline>errno[5]: Input/output error\<newline>'' \<and>
   stderr (snd (errp 1 (Some ''open'') (Some ''cannot open %s'') [ArgStr ''file.txt'']
     (\<lparr>stderr = [], errno = 0, debuglevel = 0, program = None, version_string = ''1.0'',
       libc_errno = []\<rparr>\<lparr>errno := 2, libc_errno := [9, 0, 22]\<rparr>))) =
     ''FATAL: open: cannot open file.txt\<newline>errno[2]: No such file or directory\<newline>'' \<and>
   stderr (snd (usage_errp 3 (Some ''main'') (Some ''bad flag'') []
     (\<lparr>stderr = [], errno = 0, debuglevel = 0, program = None, version_string = ''1.0'',
       libc_errno = []\<rparr>\<lparr>errno := 13, libc_errno := [9, 0, 22]\<rparr>))) =
     ''FATAL: main: bad flag\<newline>errno[13]: Permission denied\<newline>For command line usage help, try using -h\<newline>1.0''"
proof -
  let ?s = "\<lparr>stderr = [], errno = 0, debuglevel = 0, program = None, version_string = ''1.0'',
       libc_errno = []\<rparr>"
  let ?w = "\<lambda>e script. stderr (snd (warnp (Some ''io'') (Some ''read failed'') []
        (?s\<lparr>errno := e, libc_errno := script\<rparr>)))"
  let ?p = "\<lambda>e script. stderr (snd (errp 1 (Some ''open'') (Some ''cannot open %s'')
        [ArgStr ''file.txt''] (?s\<lparr>errno := e, libc_errno := script\<rparr>)))"
  let ?u = "\<lambda>e script. stderr (snd (usage_errp 3 (Some ''main'') (Some ''bad flag'') []
        (?s\<lparr>errno := e, libc_errno := script\<rparr>)))"
  from errno_rendered_as_captured [of "Some ''io''" "Some ''read failed''" "[]" ?s]
  obtain wfront where "\<And>e script. ?w e script = stderr ?s @ wfront @ errno_line e"
    by blast
  then have "?w 5 [9, 0, 22, 9] = ?w 5 []"
    by simp
  also have "\<dots> = ''Warning: io: read failed\<newline>errno[5]: Input/output error\<newline>''"
    by code_simp
  finally have w: "?w 5 [9, 0, 22, 9] =
      ''Warning: io: read failed\<newline>errno[5]: Input/output error\<newline>''" .
  from errno_rendered_as_captured
    [of "Some ''open''" "Some ''cannot open %s''" "[ArgStr ''file.txt'']" ?s 1]
  obtain pfront where
    nz: "\<And>e script. e \<noteq> 0 \<Longrightarrow> ?p e script = stderr ?s @ pfront @ errno_line e" and
    quiet: "?p 0 [] = stderr ?s @ pfront"
    by blast
  have "?p 0 [] = ''FATAL: open: cannot open file.txt\<newline>''"
    by code_simp
  with quiet have pfront: "pfront = ''FATAL: open: cannot open file.txt\<newline>''"
    by simp
  have "?p 2 [9, 0, 22] = stderr ?s @ pfront @ errno_line 2"
    by (rule nz) simp
  also have "\<dots> =
      ''FATAL: open: cannot open file.txt\<newline>errno[2]: No such file or directory\<newline>''"
    unfolding pfront by code_simp
  finally have p: "?p 2 [9, 0, 22] =
      ''FATAL: open: cannot open file.txt\<newline>errno[2]: No such file or directory\<newline>''" .
  from errno_rendered_as_captured
    [of "Some ''main''" "Some ''bad flag''" "[]" ?s 3]
  obtain ufront urest where "\<And>e script. ?u e script =
      stderr ?s @ ufront @ (if (3::int) = 0 then [] else errno_line e) @ urest"
    by blast
  then have "?u 13 [9, 0, 22] = ?u 13 []"
    by simp
  also have "\<dots> = ''FATAL: main: bad flag\<newline>errno[13]: Permission denied\<newline>For command line usage help, try using -h\<newline>1.0''"
    by code_simp
  finally have u: "?u 13 [9, 0, 22] = ''FATAL: main: bad flag\<newline>errno[13]: Permission denied\<newline>For command line usage help, try using -h\<newline>1.0''" .
  from w p u show ?thesis by simp
qed

text \<open>
  C4.  As stated the claim fails in its count of warnings: the checks of the name and
  the format follow the check of the exit code, so a call with an exit code outside the
  range and a \<open>NULL\<close> name or format emits more than the two warnings about the exit
  code.  \<open>err(-1, NULL, NULL)\<close> emits four.
\<close>

theorem err_null_arguments_counterexample:
  "stderr (snd (err (- 1) None None []
     \<lparr>stderr = [], errno = 0, debuglevel = 0, program = None, version_string = ''1.0'',
      libc_errno = []\<rparr>)) =
     ''Warning: err: called with exitcode < 0: -1\<newline>Warning: err: forcing exit code: 255\<newline>Warning: err: called with NULL name\<newline>Warning: err: called with NULL fmt\<newline>FATAL: ((NULL name)): ((NULL fmt))\<newline>'' \<and>
   stderr (snd (err (- 1) None None []
     \<lparr>stderr = [], errno = 0, debuglevel = 0, program = None, version_string = ''1.0'',
      libc_errno = []\<rparr>)) \<noteq>
     ''Warning: err: called with exitcode < 0: -1\<newline>Warning: err: forcing exit code: 255\<newline>FATAL: ((NULL name)): ((NULL fmt))\<newline>''"
  by (simp add: err_stderr null_warnings_def message_text_plain decimal_def dec_nat.simps digit_def)

text \<open>
  C4, amended.  Each of \<open>err\<close>, \<open>errp\<close>, \<open>usage_err\<close> and \<open>usage_errp\<close> ends the process
  with the requested exit code when that is in the range 0 to 255, and with 255
  otherwise.  For a code outside the range the output starts with exactly two warnings
  about the exit code, the first naming the code and the second the forced value 255;
  for a code in the range there is no such warning.  What follows is the same in both
  cases: the warnings for a \<open>NULL\<close> name or format, if any, and the message.
\<close>

theorem fatal_exit_codes:
  "fst (err c name fmt ap s) = Exit (if 0 \<le> c \<and> c \<le> 255 then c else 255) \<and>
   fst (errp c name fmt ap s) = Exit (if 0 \<le> c \<and> c \<le> 255 then c else 255) \<and>
   fst (usage_err c name fmt ap s) = Exit (if 0 \<le> c \<and> c < 256 then c else 255) \<and>
   fst (usage_errp c name fmt ap s) = Exit (if 0 \<le> c \<and> c < 256 then c else 255) \<and>
   stderr (snd (err c name fmt ap s)) =
     stderr s @
     (if c \<ge> 256
      then ''Warning: err: called with exitcode >= 256: '' @ decimal c @ ''\<newline>'' @
           ''Warning: err: forcing exit code: 255\<newline>''
      else if c < 0
      then ''Warning: err: called with exitcode < 0: '' @ decimal c @ ''\<newline>'' @
           ''Warning: err: forcing exit code: 255\<newline>''
      else []) @
     null_warnings ''err'' name fmt @
     ''FATAL: '' @ name_or_placeholder name @ '': '' @
     message_text ''err'' (fmt_or_placeholder fmt) ap @ ''\<newline>'' \<and>
   (\<exists>sfx. (sfx = [] \<or> sfx = errno_line (errno s)) \<and>
      stderr (snd (errp c name fmt ap s)) =
        stderr s @
        (if c \<ge> 256
         then ''Warning: errp: called with exitcode >= 256: '' @ decimal c @ ''\<newline>'' @
              ''Warning: errp: forcing exit code: 255\<newline>''
         else if c < 0
         then ''Warning: errp: called with exitcode < 0: '' @ decimal c @ ''\<newline>'' @
              ''Warning: errp: forcing exit code: 255\<newline>''
         else []) @
        null_warnings ''errp'' name fmt @
        ''FATAL: '' @ name_or_placeholder name @ '': '' @
        message_text ''errp'' (fmt_or_placeholder fmt) ap @ ''\<newline>'' @ sfx) \<and>
   stderr (snd (usage_err c name fmt ap s)) =
     stderr s @
     (if c < 0 \<or> c \<ge> 256
      then ''Warning: usage_err: exitcode must be >= 0 && < 256: '' @ decimal c @ ''\<newline>'' @
           ''Warning: usage_err: forcing exit code: 255\<newline>''
      else []) @
     null_warnings ''usage_err'' name fmt @
     (if c = 0 then []
      else ''FATAL: '' @ name_or_placeholder name @ '': '' @
           usage_message_text ''usage_err'' (fmt_or_placeholder fmt) ap @ ''\<newline>'') @
     usage_help (program s) @ ''version: '' @ version_string s @ ''\<newline>'' \<and>
   stderr (snd (usage_errp c name fmt ap s)) =
     stderr s @
     (if c < 0 \<or> c \<ge> 256
      then ''Warning: usage_errp: exitcode must be >= 0 && < 256: '' @ decimal c @ ''\<newline>'' @
           ''Warning: usage_errp: forcing exit code: 255\<newline>''
      else []) @
     null_warnings ''usage_errp'' name fmt @
     (if c = 0 then []
      else ''FATAL: '' @ name_or_placeholder name @ '': '' @
           usage_message_text ''usage_errp'' (fmt_or_placeholder fmt) ap @ ''\<newline>'' @
           errno_line (errno s)) @
     usage_help (program s) @ version_string s"
proof -
  have r: "(if 0 \<le> c \<and> c \<le> 255 then c else 255) = (if 0 \<le> c \<and> c < 256 then c else 255)"
    by simp
  have e: "stderr (snd (err c name fmt ap s)) =
     stderr s @
     (if c \<ge> 256
      then ''Warning: err: called with exitcode >= 256: '' @ decimal c @ ''\<newline>'' @
           ''Warning: err: forcing exit code: 255\<newline>''
      else if c < 0
      then ''Warning: err: called with exitcode < 0: '' @ decimal c @ ''\<newline>'' @
           ''Warning: err: forcing exit code: 255\<newline>''
      else []) @
     null_warnings ''err'' name fmt @
     ''FATAL: '' @ name_or_placeholder name @ '': '' @
     message_text ''err'' (fmt_or_placeholder fmt) ap @ ''\<newline>''"
    unfolding err_stderr by simp
  obtain sfx where sfx: "sfx = [] \<or> sfx = errno_line (errno s)"
    and p: "stderr (snd (errp c name fmt ap s)) =
     stderr s @
     (if c \<ge> 256
      then ''Warning: errp: called with exitcode >= 256: '' @ decimal c @ ''\<newline>'' @
           ''Warning: errp: forcing exit code: 255\<newline>''
      else []) @
     (if c < 0
      then ''Warning: errp: called with exitcode < 0: '' @ decimal c @ ''\<newline>'' @
           ''Warning: errp: forcing exit code: 255\<newline>''
      else []) @
     null_warnings ''errp'' name fmt @
     ''FATAL: '' @ name_or_placeholder name @ '': '' @
     message_text ''errp'' (fmt_or_placeholder fmt) ap @ ''\<newline>'' @ sfx"
    using errp_stderr [of s c name fmt ap] by blast
  have p': "stderr (snd (errp c name fmt ap s)) =
        stderr s @
        (if c \<ge> 256
         then ''Warning: errp: called with exitcode >= 256: '' @ decimal c @ ''\<newline>'' @
              ''Warning: errp: forcing exit code: 255\<newline>''
         else if c < 0
         then ''Warning: errp: called with exitcode < 0: '' @ decimal c @ ''\<newline>'' @
              ''Warning: errp: forcing exit code: 255\<newline>''
         else []) @
        null_warnings ''errp'' name fmt @
        ''FATAL: '' @ name_or_placeholder name @ '': '' @
        message_text ''errp'' (fmt_or_placeholder fmt) ap @ ''\<newline>'' @ sfx"
    unfolding p by simp
  show ?thesis
    unfolding r err_result errp_result usage_err_result usage_errp_result
    using e sfx p' usage_err_stderr [of c name fmt ap s] usage_errp_stderr [of c name fmt ap s]
    by blast
qed

text \<open>
  Instances: \<open>err(99, "open", "cannot open %s", "file.txt")\<close> writes the message and
  exits with 99; with exit code 1000 the two warnings come first and the exit code is
  255; so it is for \<open>usage_err\<close> with exit code \<open>-1\<close>.
\<close>

theorem fatal_exit_codes_witness:
  "fst (err 99 (Some ''open'') (Some ''cannot open %s'') [ArgStr ''file.txt'']
     \<lparr>stderr = [], errno = 0, debuglevel = 0, program = None, version_string = ''1.0'',
      libc_errno = []\<rparr>) = Exit 99 \<and>
   stderr (snd (err 99 (Some ''open'') (Some ''cannot open %s'') [ArgStr ''file.txt'']
     \<lparr>stderr = [], errno = 0, debuglevel = 0, program = None, version_string = ''1.0'',
      libc_errno = []\<rparr>)) = ''FATAL: open: cannot open file.txt\<newline>'' \<and>
   fst (err 1000 (Some ''open'') (Some ''cannot open %s'') [ArgStr ''file.txt'']
     \<lparr>stderr = [], errno = 0, debuglevel = 0, program = None, version_string = ''1.0'',
      libc_errno = []\<rparr>) = Exit 255 \<and>
   stderr (snd (err 1000 (Some ''open'') (Some ''cannot open %s'') [ArgStr ''file.txt'']
     \<lparr>stderr = [], errno = 0, debuglevel = 0, program = None, version_string = ''1.0'',
      libc_errno = []\<rparr>)) =
     ''Warning: err: called with exitcode >= 256: 1000\<newline>Warning: err: forcing exit code: 255\<newline>FATAL: open: cannot open file.txt\<newline>'' \<and>
   fst (usage_err (- 1) (Some ''main'') (Some ''bad flag'') []
     \<lparr>stderr = [], errno = 0, debuglevel = 0, program = None, version_string = ''1.0'',
      libc_errno = []\<rparr>) = Exit 255 \<and>
   stderr (snd (usage_err (- 1) (Some ''main'') (Some ''bad flag'') []
     \<lparr>stderr = [], errno = 0, debuglevel = 0, program = None, version_string = ''1.0'',
      libc_errno = []\<rparr>)) =
     ''Warning: usage_err: exitcode must be >= 0 && < 256: -1\<newline>Warning: usage_err: forcing exit code: 255\<newline>FATAL: main: bad flag\<newline>For command line usage help, try using -h\<newline>version: 1.0\<newline>''"
proof -
  let ?s = "\<lparr>stderr = [], errno = 0, debuglevel = 0, program = None, version_string = ''1.0'',
      libc_errno = []\<rparr>"
  note a = fatal_exit_codes [of 99 "Some ''open''" "Some ''cannot open %s''" "[ArgStr ''file.txt'']" ?s]
  note b = fatal_exit_codes [of 1000 "Some ''open''" "Some ''cannot open %s''" "[ArgStr ''file.txt'']" ?s]
  note c = fatal_exit_codes [of "- 1" "Some ''main''" "Some ''bad flag''" "[]" ?s]
  have t [simp]: "null_warnings fn (Some n) (Some f) = []"
    "message_text fn ''cannot open %s'' [ArgStr ''file.txt''] = ''cannot open file.txt''"
    "usage_message_text fn ''bad flag'' [] = ''bad flag''"
    "decimal 1000 = ''1000''" "decimal (- 1) = ''-1''"
    "usage_help None = ''For command line usage help, try using -h\<newline>''" for fn n f
    by (simp_all add: null_warnings_def message_text_def usage_message_text_def vformat_def
        decimal_def dec_nat.simps digit_def usage_help_def)
  from a have "fst (err 99 (Some ''open'') (Some ''cannot open %s'') [ArgStr ''file.txt''] ?s) = Exit 99"
    and "stderr (snd (err 99 (Some ''open'') (Some ''cannot open %s'') [ArgStr ''file.txt''] ?s)) =
      ''FATAL: open: cannot open file.txt\<newline>''"
    by simp_all
  moreover from b have "fst (err 1000 (Some ''open'') (Some ''cannot open %s'') [ArgStr ''file.txt''] ?s) = Exit 255"
    and "stderr (snd (err 1000 (Some ''open'') (Some ''cannot open %s'') [ArgStr ''file.txt''] ?s)) =
     ''Warning: err: called with exitcode >= 256: 1000\<newline>Warning: err: forcing exit code: 255\<newline>FATAL: open: cannot open file.txt\<newline>''"
    by simp_all
  moreover from c have "fst (usage_err (- 1) (Some ''main'') (Some ''bad flag'') [] ?s) = Exit 255"
    and "stderr (snd (usage_err (- 1) (Some ''main'') (Some ''bad flag'') [] ?s)) =
     ''Warning: usage_err: exitcode must be >= 0 && < 256: -1\<newline>Warning: usage_err: forcing exit code: 255\<newline>FATAL: main: bad flag\<newline>For command line usage help, try using -h\<newline>version: 1.0\<newline>''"
    by simp_all
  ultimately show ?thesis by blast
qed

text \<open>
  C5.  As stated the claim fails: \<open>usage_err\<close> and \<open>usage_errp\<close> check their name and
  format before they look at the exit code, so a call with exit code 0 and a \<open>NULL\<close>
  format (or name) writes the warning about it before the usage help.
\<close>

theorem usage_err_zero_null_fmt_counterexample:
  "stderr (snd (usage_err 0 (Some ''main'') None []
     \<lparr>stderr = [], errno = 0, debuglevel = 0, program = Some ''prog'', version_string = ''1.0'',
      libc_errno = []\<rparr>)) =
     ''Warning: usage_err: called with NULL fmt\<newline>For command line usage help, try: prog -h\<newline>version: 1.0\<newline>'' \<and>
   stderr (snd (usage_err 0 (Some ''main'') None []
     \<lparr>stderr = [], errno = 0, debuglevel = 0, program = Some ''prog'', version_string = ''1.0'',
      libc_errno = []\<rparr>)) \<noteq>
     ''For command line usage help, try: prog -h\<newline>version: 1.0\<newline>''"
  by code_simp

text \<open>
  C5, amended.  With exit code 0 the two functions write no message body and no
  \<open>errno\<close> line: the output is the warnings for a \<open>NULL\<close> name or format, if any (none
  when both are given), then the usage help line and the version string, and the
  process ends with code 0.
\<close>

theorem usage_exit_zero:
  "stderr (snd (usage_err 0 name fmt ap s)) =
     stderr s @ null_warnings ''usage_err'' name fmt @
     usage_help (program s) @ ''version: '' @ version_string s @ ''\<newline>'' \<and>
   fst (usage_err 0 name fmt ap s) = Exit 0 \<and>
   stderr (snd (usage_errp 0 name fmt ap s)) =
     stderr s @ null_warnings ''usage_errp'' name fmt @
     usage_help (program s) @ version_string s \<and>
   fst (usage_errp 0 name fmt ap s) = Exit 0 \<and>
   null_warnings fn (Some n) (Some f) = []"
  by (simp add: usage_err_stderr usage_err_result usage_errp_stderr usage_errp_result
      null_warnings_def)


text \<open>
  C7.  A \<open>NULL\<close> format or name never changes how a function ends: \<open>msg\<close>, \<open>dbg\<close>, \<open>warn\<close>
  and \<open>warnp\<close> return, and the fatal functions end the process with the code they would
  use had the placeholders been passed.  The warning about the \<open>NULL\<close> argument is
  written before the message, and the message shows the placeholder in its place
  (\<open>usage_err\<close> and \<open>usage_errp\<close> with exit code 0 write no message, and \<open>dbg\<close> none
  above the verbosity level; the warning is written all the same).
\<close>

theorem null_arguments_recovered:
  "stderr (snd (msg None ap s)) =
     stderr s @ ''Warning: msg: NULL fmt given to debug\<newline>'' @ ''((NULL fmt))\<newline>'' \<and>
   fst (msg None ap s) = Ret () \<and>
   stderr (snd (dbg level None ap s)) =
     stderr s @ ''Warning: dbg: NULL fmt given to debug\<newline>'' @
     (if level \<le> debuglevel s then ''((NULL fmt))\<newline>'' else []) \<and>
   fst (dbg level None ap s) = Ret () \<and>
   stderr (snd (warn name fmt ap s)) =
     stderr s @
     (case name of None \<Rightarrow> ''Warning: warn called with NULL name\<newline>'' | Some _ \<Rightarrow> []) @
     (case fmt of None \<Rightarrow> ''Warning: warn called with NULL fmt\<newline>'' | Some _ \<Rightarrow> []) @
     ''Warning: '' @ name_or_placeholder name @ '': '' @
     message_text ''warn'' (fmt_or_placeholder fmt) ap @ ''\<newline>'' \<and>
   fst (warn name fmt ap s) = Ret () \<and>
   stderr (snd (warnp name fmt ap s)) =
     stderr s @
     (case name of None \<Rightarrow> ''Warning: warnp called with NULL name\<newline>'' | Some _ \<Rightarrow> []) @
     (case fmt of None \<Rightarrow> ''Warning: warnp called with NULL fmt\<newline>'' | Some _ \<Rightarrow> []) @
     ''Warning: '' @ name_or_placeholder name @ '': '' @
     message_text ''warnp'' (fmt_or_placeholder fmt) ap @ ''\<newline>'' @ errno_line (errno s) \<and>
   fst (warnp name fmt ap s) = Ret () \<and>
   (\<exists>front. stderr (snd (err c name fmt ap s)) =
      stderr s @ front @ null_warnings ''err'' name fmt @
      ''FATAL: '' @ name_or_placeholder name @ '': '' @
      message_text ''err'' (fmt_or_placeholder fmt) ap @ ''\<newline>'') \<and>
   (\<exists>front sfx. stderr (snd (errp c name fmt ap s)) =
      stderr s @ front @ null_warnings ''errp'' name fmt @
      ''FATAL: '' @ name_or_placeholder name @ '': '' @
      message_text ''errp'' (fmt_or_placeholder fmt) ap @ ''\<newline>'' @ sfx) \<and>
   (\<exists>front. stderr (snd (usage_err c name fmt ap s)) =
      stderr s @ front @ null_warnings ''usage_err'' name fmt @
      (if c = 0 then []
       else ''FATAL: '' @ name_or_placeholder name @ '': '' @
            usage_message_text ''usage_err'' (fmt_or_placeholder fmt) ap @ ''\<newline>'') @
      usage_help (program s) @ ''version: '' @ version_string s @ ''\<newline>'') \<and>
   (\<exists>front. stderr (snd (usage_errp c name fmt ap s)) =
      stderr s @ front @ null_warnings ''usage_errp'' name fmt @
      (if c = 0 then []
       else ''FATAL: '' @ name_or_placeholder name @ '': '' @
            usage_message_text ''usage_errp'' (fmt_or_placeholder fmt) ap @ ''\<newline>'' @
            errno_line (errno s)) @
      usage_help (program s) @ version_string s) \<and>
   fst (err c name fmt ap s) =
     fst (err c (Some (name_or_placeholder name)) (Some (fmt_or_placeholder fmt)) ap s) \<and>
   fst (errp c name fmt ap s) =
     fst (errp c (Some (name_or_placeholder name)) (Some (fmt_or_placeholder fmt)) ap s) \<and>
   fst (usage_err c name fmt ap s) =
     fst (usage_err c (Some (name_or_placeholder name)) (Some (fmt_or_placeholder fmt)) ap s) \<and>
   fst (usage_errp c name fmt ap s) =
     fst (usage_errp c (Some (name_or_placeholder name)) (Some (fmt_or_placeholder fmt)) ap s) \<and>
   name_or_placeholder None = ''((NULL name))'' \<and>
   fmt_or_placeholder None = ''((NULL fmt))'' \<and>
   message_text fn ''((NULL fmt))'' ap = ''((NULL fmt))'' \<and>
   usage_message_text fn ''((NULL fmt))'' ap = ''((NULL fmt))'' \<and>
   null_warnings fn None None =
     ''Warning: '' @ fn @ '': called with NULL name\<newline>'' @
     ''Warning: '' @ fn @ '': called with NULL fmt\<newline>'' \<and>
   null_warnings fn (Some n) (Some f) = []"
proof (intro conjI)
  show "stderr (snd (msg None ap s)) =
     stderr s @ ''Warning: msg: NULL fmt given to debug\<newline>'' @ ''((NULL fmt))\<newline>''"
    by (simp add: msg_stderr message_text_plain)
  show "stderr (snd (dbg level None ap s)) =
     stderr s @ ''Warning: dbg: NULL fmt given to debug\<newline>'' @
     (if level \<le> debuglevel s then ''((NULL fmt))\<newline>'' else [])"
    by (simp add: dbg_stderr message_text_plain)
  show "\<exists>front. stderr (snd (err c name fmt ap s)) =
      stderr s @ front @ null_warnings ''err'' name fmt @
      ''FATAL: '' @ name_or_placeholder name @ '': '' @
      message_text ''err'' (fmt_or_placeholder fmt) ap @ ''\<newline>''"
    by (rule ex_front2) (rule err_stderr)
  show "\<exists>front sfx. stderr (snd (errp c name fmt ap s)) =
      stderr s @ front @ null_warnings ''errp'' name fmt @
      ''FATAL: '' @ name_or_placeholder name @ '': '' @
      message_text ''errp'' (fmt_or_placeholder fmt) ap @ ''\<newline>'' @ sfx"
  proof -
    from errp_stderr [of s c name fmt ap] obtain sfx where
      "stderr (snd (errp c name fmt ap s)) =
       stderr s @
       (if c \<ge> 256
        then ''Warning: errp: called with exitcode >= 256: '' @ decimal c @ ''\<newline>'' @
             ''Warning: errp: forcing exit code: 255\<newline>''
        else []) @
       (if c < 0
        then ''Warning: errp: called with exitcode < 0: '' @ decimal c @ ''\<newline>'' @
             ''Warning: errp: forcing exit code: 255\<newline>''
        else []) @
       null_warnings ''errp'' name fmt @
       ''FATAL: '' @ name_or_placeholder name @ '': '' @
       message_text ''errp'' (fmt_or_placeholder fmt) ap @ ''\<newline>'' @ sfx"
      by blast
    then have "\<exists>front. stderr (snd (errp c name fmt ap s)) =
      stderr s @ front @ null_warnings ''errp'' name fmt @
      ''FATAL: '' @ name_or_placeholder name @ '': '' @
      message_text ''errp'' (fmt_or_placeholder fmt) ap @ ''\<newline>'' @ sfx"
      by (rule ex_front2)
    then show ?thesis by (elim exE, intro exI)
  qed
  show "\<exists>front. stderr (snd (usage_err c name fmt ap s)) =
      stderr s @ front @ null_warnings ''usage_err'' name fmt @
      (if c = 0 then []
       else ''FATAL: '' @ name_or_placeholder name @ '': '' @
            usage_message_text ''usage_err'' (fmt_or_placeholder fmt) ap @ ''\<newline>'') @
      usage_help (program s) @ ''version: '' @ version_string s @ ''\<newline>''"
    by (rule ex_front1) (rule usage_err_stderr)
  show "\<exists>front. stderr (snd (usage_errp c name fmt ap s)) =
      stderr s @ front @ null_warnings ''usage_errp'' name fmt @
      (if c = 0 then []
       else ''FATAL: '' @ name_or_placeholder name @ '': '' @
            usage_message_text ''usage_errp'' (fmt_or_placeholder fmt) ap @ ''\<newline>'' @
            errno_line (errno s)) @
      usage_help (program s) @ version_string s"
    by (rule ex_front1) (rule usage_errp_stderr)
  show "null_warnings fn None None =
     ''Warning: '' @ fn @ '': called with NULL name\<newline>'' @
     ''Warning: '' @ fn @ '': called with NULL fmt\<newline>''"
    by (simp add: null_warnings_def)
qed (simp_all add: msg_result dbg_result warn_stderr warnp_stderr warnp_result err_result
    errp_result usage_err_result usage_errp_result message_text_plain usage_message_text_plain
    null_warnings_def)

text \<open>
  C8.  The call \<open>warn("parse", "unexpected token %s", "foo")\<close> appends exactly the
  line \<open>Warning: parse: unexpected token foo\<close> and a newline to \<open>stderr\<close>.
\<close>

theorem warn_parse_scenario:
  "stderr (snd (warn (Some ''parse'') (Some ''unexpected token %s'') [ArgStr ''foo''] s)) =
     stderr s @ ''Warning: parse: unexpected token foo\<newline>''"
  by (simp add: warn_stderr message_text_def vformat_def)

text \<open>
  C9.  \<open>dbg\<close> with a \<open>NULL\<close> format emits its warning before it looks at the level:
  the warning line is written whatever the level is, so the call always produces
  output; the placeholder line follows only when the level passes the gate.
\<close>

theorem dbg_null_fmt_warns_before_gate:
  "stderr (snd (dbg level None ap s)) =
     stderr s @ ''Warning: dbg: NULL fmt given to debug\<newline>'' @
     (if level \<le> debuglevel s then ''((NULL fmt))\<newline>'' else []) \<and>
   stderr (snd (dbg level None ap s)) \<noteq> stderr s"
  by (simp add: dbg_stderr message_text_plain)

text \<open>
  C10.  The output of \<open>usage_err\<close> ends with the usage help line followed by
  \<open>version: \<close>, the version string and a newline; the output of \<open>usage_errp\<close> ends with
  the usage help line followed by the bare version string, with no label before it and
  no newline after it.
\<close>

theorem usage_version_rendering:
  "(\<exists>front. stderr (snd (usage_err c name fmt ap s)) =
      stderr s @ front @ usage_help (program s) @
      ''version: '' @ version_string s @ ''\<newline>'') \<and>
   (\<exists>front. stderr (snd (usage_errp c name fmt ap s)) =
      stderr s @ front @ usage_help (program s) @ version_string s)"
proof
  show "\<exists>front. stderr (snd (usage_err c name fmt ap s)) =
      stderr s @ front @ usage_help (program s) @ ''version: '' @ version_string s @ ''\<newline>''"
    by (rule ex_front3) (rule usage_err_stderr)
  show "\<exists>front. stderr (snd (usage_errp c name fmt ap s)) =
      stderr s @ front @ usage_help (program s) @ version_string s"
    by (rule ex_front3) (rule usage_errp_stderr)
qed

end
